theory Spec2Isabelle
  imports Main
begin

section \<open>Conventions\<close>

text \<open>
  The portal exists in two variants that share one specification: a hosted-Postgres
  variant (SQL migrations plus TypeScript services calling the client SDK) and a REST
  variant (Express routes over Mongoose models).  Both are embedded here.

  A table or collection is a list of rows in insertion order.  A column declared
  \<^verbatim>\<open>PRIMARY KEY\<close> (and a Mongoose \<^verbatim>\<open>_id\<close>) identifies at most one row, so a
  statement that selects a row and then writes \<^verbatim>\<open>WHERE id = row.id\<close> addresses exactly the
  row it selected; the model addresses that row by position (\<open>update_first\<close> with the
  predicate of the preceding \<open>find\<close>).  Timestamps (\<^verbatim>\<open>timestamptz\<close>, \<^verbatim>\<open>Date\<close>) and
  intervals are integers; identifiers (\<^verbatim>\<open>uuid\<close>, \<^verbatim>\<open>ObjectId\<close>) are natural numbers.
  Values the platform generates (\<^verbatim>\<open>now()\<close>, random tokens, fresh identifiers) are
  parameters of the operation that consumes them.
\<close>

type_synonym timestamp = int
type_synonym uuid = nat

fun update_first :: "('a \<Rightarrow> bool) \<Rightarrow> ('a \<Rightarrow> 'a) \<Rightarrow> 'a list \<Rightarrow> 'a list" where
  "update_first P f [] = []"
| "update_first P f (x # xs) = (if P x then f x # xs else x # update_first P f xs)"

section \<open>Hosted-Postgres variant: tables, rate limiter and token validator\<close>

subsection \<open>Tables\<close>

record rate_limit_row =
  rl_identifier :: string
  rl_action :: string
  rl_count :: int
  rl_window_start :: timestamp
  rl_blocked_until :: "timestamp option"
  rl_updated_at :: timestamp

record url_validation =
  uv_token :: string
  uv_token_type :: string
  uv_user_id :: "uuid option"
  uv_ip_address :: "string option"
  uv_user_agent :: "string option"
  uv_is_valid :: bool
  uv_validation_count :: int
  uv_last_validated_at :: timestamp
  uv_expires_at :: timestamp

record security_event =
  se_user_id :: "uuid option"
  se_event_type :: string
  se_description :: string
  se_ip_address :: "string option"
  se_user_agent :: "string option"
  se_meta_token_type :: string
  se_meta_validation_count :: int

record sb_teacher =
  st_id :: uuid
  st_profile_id :: "uuid option"
  st_submission_token :: string
  st_token_expires_at :: timestamp
  st_has_submitted :: bool
  st_added_by :: "uuid option"
  st_updated_at :: timestamp

record realtime_event =
  re_event_type :: string
  re_user_id :: "uuid option"
  re_channel :: string

datatype sb_status = Pending | Under_review | Approved | Rejected

datatype sb_payment_status = Payment_pending | Payment_processing | Payment_completed | Payment_failed

record sb_bank_details =
  account_number :: string
  ifsc_code :: string
  account_holder_name :: string

record sb_subject_details =
  sd_subject :: string
  sd_class :: string
  sd_board :: string
  sd_exam_type :: string

record sb_submission =
  sub_id :: uuid
  sub_teacher_id :: uuid
  sub_bank_details :: sb_bank_details
  sub_subject_details :: sb_subject_details
  sub_question_paper_url :: string
  sub_question_paper_name :: string
  sub_status :: sb_status
  sub_review_notes :: string
  sub_payment_status :: sb_payment_status
  sub_payment_amount :: int
  sub_reviewed_by :: "uuid option"
  sub_reviewed_at :: "timestamp option"
  sub_created_at :: timestamp
  sub_updated_at :: timestamp

datatype notification_type = Info | Success_type | Warning | Error_type

record sb_notification =
  sn_id :: uuid
  sn_recipient_id :: uuid
  sn_title :: string
  sn_message :: string
  sn_type :: notification_type
  sn_is_read :: bool
  sn_related_id :: "uuid option"
  sn_related_type :: "string option"

datatype role = Admin_role | Teacher_role

record profile =
  p_id :: uuid
  p_email :: string
  p_full_name :: string
  p_role :: role
  p_avatar_url :: "string option"
  p_phone :: "string option"
  p_is_active :: bool
  p_last_login :: "timestamp option"
  p_created_at :: timestamp
  p_updated_at :: timestamp

record pg_db =
  rate_limits :: "rate_limit_row list"
  url_validations :: "url_validation list"
  security_events :: "security_event list"
  teachers :: "sb_teacher list"
  realtime_events :: "realtime_event list"
  submissions :: "sb_submission list"
  notifications :: "sb_notification list"
  profiles :: "profile list"

datatype sql_error =
    Rate_limit_exceeded string string
  | Integer_out_of_range
  | Unique_violation

datatype validation_json =
    Failure string string
  | Success "uuid option" string int

definition minute :: int where
  "minute = 60000000"

definition day :: int where
  "day = 86400000000"

definition int4_max :: int where
  "int4_max = 2147483647"

subsection \<open>\<^verbatim>\<open>check_rate_limit(p_identifier, p_action, p_max_attempts, p_window_duration)\<close>\<close>

text \<open>
  The function never returns \<^verbatim>\<open>false\<close>: a rejected attempt is the exception raised by
  \<^verbatim>\<open>RAISE EXCEPTION\<close>.  The exception aborts the calling statement, so the
  \<^verbatim>\<open>blocked_until\<close> update issued just before it is rolled back with it and the table
  is returned unchanged.  In the increment branch \<^verbatim>\<open>count < p_max_attempts\<close> holds, so
  \<^verbatim>\<open>count + 1\<close> stays in the range of the column whenever the bound is an
  \<^verbatim>\<open>integer\<close>.
\<close>

definition rl_key :: "string \<Rightarrow> string \<Rightarrow> rate_limit_row \<Rightarrow> bool" where
  "rl_key p_identifier p_action r \<longleftrightarrow> rl_identifier r = p_identifier \<and> rl_action r = p_action"

definition check_rate_limit ::
  "string \<Rightarrow> string \<Rightarrow> int \<Rightarrow> int \<Rightarrow> timestamp \<Rightarrow> rate_limit_row list
     \<Rightarrow> (sql_error + bool) \<times> rate_limit_row list" where
  "check_rate_limit p_identifier p_action p_max_attempts p_window_duration now tbl =
     (case find (rl_key p_identifier p_action) tbl of
        None \<Rightarrow>
          (Inr True,
           tbl @ [\<lparr>rl_identifier = p_identifier, rl_action = p_action, rl_count = 1,
                   rl_window_start = now, rl_blocked_until = None, rl_updated_at = now\<rparr>])
      | Some rate_record \<Rightarrow>
          if rl_window_start rate_record + p_window_duration > now then
            if rl_count rate_record \<ge> p_max_attempts then
              (Inl (Rate_limit_exceeded p_action p_identifier), tbl)
            else
              (Inr True,
               update_first (rl_key p_identifier p_action)
                 (\<lambda>r. r\<lparr>rl_count := rl_count r + 1, rl_updated_at := now\<rparr>) tbl)
          else
            (Inr True,
             update_first (rl_key p_identifier p_action)
               (\<lambda>r. r\<lparr>rl_count := 1, rl_window_start := now, rl_blocked_until := None,
                      rl_updated_at := now\<rparr>) tbl))"

subsection \<open>\<^verbatim>\<open>validate_url_token(p_token, p_token_type, p_ip_address, p_user_agent)\<close>\<close>

definition uv_key :: "string \<Rightarrow> string \<Rightarrow> url_validation \<Rightarrow> bool" where
  "uv_key p_token p_token_type v \<longleftrightarrow> uv_token v = p_token \<and> uv_token_type v = p_token_type"

definition coalesce :: "'a option \<Rightarrow> 'a option \<Rightarrow> 'a option" where
  "coalesce a b = (case a of Some x \<Rightarrow> Some x | None \<Rightarrow> b)"

definition validate_lookup ::
  "string \<Rightarrow> string \<Rightarrow> string option \<Rightarrow> string option \<Rightarrow> timestamp \<Rightarrow> pg_db
     \<Rightarrow> (sql_error + validation_json) \<times> pg_db" where
  "validate_lookup p_token p_token_type p_ip_address p_user_agent now db =
     (case find (uv_key p_token p_token_type) (url_validations db) of
        None \<Rightarrow> (Inr (Failure ''Invalid token'' ''INVALID_TOKEN''), db)
      | Some validation_record \<Rightarrow>
          if uv_expires_at validation_record < now then
            (Inr (Failure ''Token expired'' ''TOKEN_EXPIRED''),
             db\<lparr>url_validations :=
                  update_first (uv_key p_token p_token_type) (\<lambda>v. v\<lparr>uv_is_valid := False\<rparr>)
                    (url_validations db)\<rparr>)
          else if \<not> uv_is_valid validation_record then
            (Inr (Failure ''Token already used or invalidated'' ''TOKEN_INVALID''), db)
          else if uv_validation_count validation_record + 1 > int4_max then
            (Inl Integer_out_of_range, db)
          else
            (Inr (Success (uv_user_id validation_record) p_token_type
                    (uv_validation_count validation_record + 1)),
             db\<lparr>url_validations :=
                  update_first (uv_key p_token p_token_type)
                    (\<lambda>v. v\<lparr>uv_validation_count := uv_validation_count v + 1,
                           uv_last_validated_at := now,
                           uv_ip_address := coalesce p_ip_address (uv_ip_address v),
                           uv_user_agent := coalesce p_user_agent (uv_user_agent v)\<rparr>)
                    (url_validations db),
                security_events := security_events db @
                  [\<lparr>se_user_id = uv_user_id validation_record,
                    se_event_type = ''url_validation'',
                    se_description = ''URL token validated: '' @ p_token_type,
                    se_ip_address = p_ip_address,
                    se_user_agent = p_user_agent,
                    se_meta_token_type = p_token_type,
                    se_meta_validation_count = uv_validation_count validation_record + 1\<rparr>]\<rparr>))"

text \<open>
  The whole function is one statement of the caller: an exception anywhere in it (the rate
  limiter's, or the overflow of the counter column) leaves the database as it was before
  the call.
\<close>

definition rollback_to :: "'s \<Rightarrow> ('e + 'a) \<times> 's \<Rightarrow> ('e + 'a) \<times> 's" where
  "rollback_to s0 r = (case fst r of Inl e \<Rightarrow> (Inl e, s0) | Inr v \<Rightarrow> r)"

definition validate_url_token ::
  "string \<Rightarrow> string \<Rightarrow> string option \<Rightarrow> string option \<Rightarrow> timestamp \<Rightarrow> pg_db
     \<Rightarrow> (sql_error + validation_json) \<times> pg_db" where
  "validate_url_token p_token p_token_type p_ip_address p_user_agent now db =
     rollback_to db
       (case p_ip_address of
          None \<Rightarrow> validate_lookup p_token p_token_type p_ip_address p_user_agent now db
        | Some ip \<Rightarrow>
            (let checked = check_rate_limit ip ''url_validation'' 10 minute now (rate_limits db)
             in case fst checked of
                  Inl e \<Rightarrow> (Inl e, db)
                | Inr _ \<Rightarrow>
                    validate_lookup p_token p_token_type p_ip_address p_user_agent now
                      (db\<lparr>rate_limits := snd checked\<rparr>)))"

text \<open>
  The rate limiter admits a validation call: no client address is supplied, or
  \<^verbatim>\<open>check_rate_limit\<close> does not raise for it.
\<close>

definition rate_admits :: "string option \<Rightarrow> timestamp \<Rightarrow> pg_db \<Rightarrow> bool" where
  "rate_admits p_ip_address now db =
     (case p_ip_address of
        None \<Rightarrow> True
      | Some ip \<Rightarrow> fst (check_rate_limit ip ''url_validation'' 10 minute now (rate_limits db)) = Inr True)"

subsection \<open>\<^verbatim>\<open>create_submission_token(p_teacher_id, p_expires_in)\<close>\<close>

text \<open>
  \<open>token\<close> stands for \<^verbatim>\<open>encode(gen_random_bytes(32), 'hex')\<close>.  The column
  \<^verbatim>\<open>teachers.submission_token\<close> is \<^verbatim>\<open>UNIQUE\<close>: the update fails when another teacher
  already holds the same token.  The new validation row takes the column defaults
  (\<^verbatim>\<open>is_valid = true\<close>, \<^verbatim>\<open>validation_count = 0\<close>, \<^verbatim>\<open>last_validated_at = now()\<close>).
\<close>

definition create_submission_token ::
  "uuid \<Rightarrow> int \<Rightarrow> string \<Rightarrow> timestamp \<Rightarrow> pg_db \<Rightarrow> (sql_error + string) \<times> pg_db" where
  "create_submission_token p_teacher_id p_expires_in token now db =
     (let expires_at = now + p_expires_in in
      case find (\<lambda>t. st_id t = p_teacher_id) (teachers db) of
        None \<Rightarrow>
          (Inr token,
           db\<lparr>realtime_events := realtime_events db @
                 [\<lparr>re_event_type = ''token_created'', re_user_id = None,
                   re_channel = ''teacher_events''\<rparr>]\<rparr>)
      | Some teacher \<Rightarrow>
          if \<exists>t \<in> set (teachers db). st_id t \<noteq> p_teacher_id \<and> st_submission_token t = token
          then (Inl Unique_violation, db)
          else
            (Inr token,
             db\<lparr>teachers :=
                  update_first (\<lambda>t. st_id t = p_teacher_id)
                    (\<lambda>t. t\<lparr>st_submission_token := token, st_token_expires_at := expires_at,
                           st_updated_at := now\<rparr>) (teachers db),
                url_validations := url_validations db @
                  [\<lparr>uv_token = token, uv_token_type = ''submission'',
                    uv_user_id = st_profile_id teacher, uv_ip_address = None,
                    uv_user_agent = None, uv_is_valid = True, uv_validation_count = 0,
                    uv_last_validated_at = now, uv_expires_at = expires_at\<rparr>],
                realtime_events := realtime_events db @
                  [\<lparr>re_event_type = ''token_created'', re_user_id = st_profile_id teacher,
                    re_channel = ''teacher_events''\<rparr>]\<rparr>))"

text \<open>The default of \<^verbatim>\<open>p_expires_in\<close> is \<^verbatim>\<open>interval '7 days'\<close>.\<close>

definition default_expires_in :: int where
  "default_expires_in = 7 * day"

text \<open>A sequence of validation calls, each with its own arguments and clock reading.\<close>

record validate_call =
  vc_token :: string
  vc_token_type :: string
  vc_ip_address :: "string option"
  vc_user_agent :: "string option"
  vc_now :: timestamp

fun validate_all :: "validate_call list \<Rightarrow> pg_db \<Rightarrow> pg_db" where
  "validate_all [] db = db"
| "validate_all (c # cs) db =
     validate_all cs
       (snd (validate_url_token (vc_token c) (vc_token_type c) (vc_ip_address c)
               (vc_user_agent c) (vc_now c) db))"

text \<open>A sequence of rate-limiter calls, with the outcome of each and the final table.\<close>

record rl_attempt =
  ra_identifier :: string
  ra_action :: string
  ra_max_attempts :: int
  ra_window_duration :: int
  ra_now :: timestamp

fun check_all ::
  "rl_attempt list \<Rightarrow> rate_limit_row list \<Rightarrow> (sql_error + bool) list \<times> rate_limit_row list" where
  "check_all [] tbl = ([], tbl)"
| "check_all (x # xs) tbl =
     (let r = check_rate_limit (ra_identifier x) (ra_action x) (ra_max_attempts x)
                (ra_window_duration x) (ra_now x) tbl;
          rest = check_all xs (snd r)
      in (fst r # fst rest, snd rest))"

definition same_key_attempts :: "string \<Rightarrow> string \<Rightarrow> int \<Rightarrow> int \<Rightarrow> timestamp list \<Rightarrow> rl_attempt list" where
  "same_key_attempts i a n w ts =
     map (\<lambda>t. \<lparr>ra_identifier = i, ra_action = a, ra_max_attempts = n, ra_window_duration = w,
                ra_now = t\<rparr>) ts"

definition ra_key :: "string \<Rightarrow> string \<Rightarrow> rl_attempt \<Rightarrow> bool" where
  "ra_key i a x \<longleftrightarrow> ra_identifier x = i \<and> ra_action x = a"

text \<open>The outcomes, in order, of those calls of a run that were made under one key.\<close>

definition outcomes_for ::
  "string \<Rightarrow> string \<Rightarrow> rl_attempt list \<Rightarrow> rate_limit_row list \<Rightarrow> (sql_error + bool) list" where
  "outcomes_for i a xs tbl =
     map snd (filter (\<lambda>p. ra_key i a (fst p)) (zip xs (fst (check_all xs tbl))))"

section \<open>REST variant: the \<^verbatim>\<open>rateLimiter\<close> middleware\<close>

text \<open>
  \<^verbatim>\<open>rateLimiter(maxAttempts, windowMs)\<close> closes over a \<^verbatim>\<open>Map\<close> from the string
  \<^verbatim>\<open>req.ip + req.path\<close> to an object with a count and a reset time; the returned middleware
  either calls \<^verbatim>\<open>next()\<close> or answers 429 with \<^verbatim>\<open>retryAfter\<close>
  \<^verbatim>\<open>Math.ceil((resetTime - now) / 1000)\<close>.
\<close>

record attempt =
  count :: int
  resetTime :: int

record request =
  req_ip :: string
  req_path :: string

datatype middleware_outcome = Next | Too_many_429 int

definition rateLimiter ::
  "int \<Rightarrow> int \<Rightarrow> (string \<rightharpoonup> attempt) \<Rightarrow> request \<Rightarrow> int
     \<Rightarrow> middleware_outcome \<times> (string \<rightharpoonup> attempt)" where
  "rateLimiter maxAttempts windowMs attempts req now =
     (let key = req_ip req @ req_path req in
      case attempts key of
        None \<Rightarrow> (Next, attempts(key \<mapsto> \<lparr>count = 1, resetTime = now + windowMs\<rparr>))
      | Some attempt \<Rightarrow>
          if now > resetTime attempt then
            (Next, attempts(key \<mapsto> \<lparr>count = 1, resetTime = now + windowMs\<rparr>))
          else if count attempt \<ge> maxAttempts then
            (Too_many_429 (- ((now - resetTime attempt) div 1000)), attempts)
          else
            (Next, attempts(key \<mapsto> attempt\<lparr>count := count attempt + 1\<rparr>)))"

fun limit_all ::
  "int \<Rightarrow> int \<Rightarrow> (request \<times> int) list \<Rightarrow> (string \<rightharpoonup> attempt)
     \<Rightarrow> middleware_outcome list \<times> (string \<rightharpoonup> attempt)" where
  "limit_all maxAttempts windowMs [] attempts = ([], attempts)"
| "limit_all maxAttempts windowMs (x # xs) attempts =
     (let r = rateLimiter maxAttempts windowMs attempts (fst x) (snd x);
          rest = limit_all maxAttempts windowMs xs (snd r)
      in (fst r # fst rest, snd rest))"

definition limited_outcomes_for ::
  "request \<Rightarrow> int \<Rightarrow> int \<Rightarrow> (request \<times> int) list \<Rightarrow> (string \<rightharpoonup> attempt)
     \<Rightarrow> middleware_outcome list" where
  "limited_outcomes_for k maxAttempts windowMs xs attempts =
     map snd (filter (\<lambda>p. fst (fst p) = k) (zip xs (fst (limit_all maxAttempts windowMs xs attempts))))"

text \<open>
  Express hands the middleware a path that begins with a slash, and an address never
  contains one.
\<close>

definition wf_request :: "request \<Rightarrow> bool" where
  "wf_request r \<longleftrightarrow> CHR ''/'' \<notin> set (req_ip r) \<and> (case req_path r of [] \<Rightarrow> False | c # _ \<Rightarrow> c = CHR ''/'')"

section \<open>Strings built by template literals\<close>

text \<open>
  \<^verbatim>\<open>${n}\<close> renders a number in decimal and an absent value as \<^verbatim>\<open>undefined\<close>.  The
  rupee sign of the messages is written as its three UTF-8 bytes.
\<close>

fun show_nat :: "nat \<Rightarrow> string" where
  "show_nat n =
     (if n < 10 then [''0123456789'' ! n]
      else show_nat (n div 10) @ [''0123456789'' ! (n mod 10)])"

declare show_nat.simps [simp del]

definition show_int :: "int \<Rightarrow> string" where
  "show_int i = (if i < 0 then CHR ''-'' # show_nat (nat (- i)) else show_nat (nat i))"

definition show_opt_int :: "int option \<Rightarrow> string" where
  "show_opt_int x = (case x of None \<Rightarrow> ''undefined'' | Some i \<Rightarrow> show_int i)"

definition show_opt_string :: "string option \<Rightarrow> string" where
  "show_opt_string x = (case x of None \<Rightarrow> ''undefined'' | Some s \<Rightarrow> s)"

definition rupee :: string where
  "rupee = [CHR 0xE2, CHR 0x82, CHR 0xB9]"

definition toUpperCase_char :: "char \<Rightarrow> char" where
  "toUpperCase_char c =
     (case map_of (zip ''abcdefghijklmnopqrstuvwxyz'' ''ABCDEFGHIJKLMNOPQRSTUVWXYZ'') c of
        None \<Rightarrow> c | Some u \<Rightarrow> u)"

definition toLowerCase_char :: "char \<Rightarrow> char" where
  "toLowerCase_char c =
     (case map_of (zip ''ABCDEFGHIJKLMNOPQRSTUVWXYZ'' ''abcdefghijklmnopqrstuvwxyz'') c of
        None \<Rightarrow> c | Some l \<Rightarrow> l)"

text \<open>\<^verbatim>\<open>s.charAt(0).toUpperCase() + s.slice(1)\<close>\<close>

definition capitalize :: "string \<Rightarrow> string" where
  "capitalize s = (case s of [] \<Rightarrow> [] | c # cs \<Rightarrow> toUpperCase_char c # cs)"

definition is_space :: "char \<Rightarrow> bool" where
  "is_space c \<longleftrightarrow> c = CHR '' '' \<or> c = CHR 0x09 \<or> c = CHR 0x0A \<or> c = CHR 0x0D"

definition trim :: "string \<Rightarrow> string" where
  "trim s = rev (dropWhile is_space (rev (dropWhile is_space s)))"

section \<open>REST variant: models and routes\<close>

subsection \<open>Mongoose models\<close>

record rest_teacher =
  t_id :: uuid
  t_name :: string
  t_email :: string
  t_phone :: string
  submissionToken :: string
  tokenExpiry :: timestamp
  hasSubmitted :: bool
  addedBy :: uuid

record bankDetails =
  accountNumber :: string
  ifscCode :: string
  accountHolderName :: string

record subjectDetails =
  subject :: string
  className :: string
  board :: string
  examType :: string

record questionPaper =
  qp_filename :: string
  qp_originalName :: string
  qp_path :: string
  qp_size :: nat

record rest_submission =
  s_id :: uuid
  s_teacher :: uuid
  s_bankDetails :: bankDetails
  s_subjectDetails :: subjectDetails
  s_questionPaper :: questionPaper
  status :: string
  reviewNotes :: string
  paymentStatus :: string
  paymentAmount :: int
  reviewedBy :: "uuid option"
  reviewedAt :: "timestamp option"

datatype recipient_model = Admin | Teacher

record rest_notification =
  n_id :: uuid
  recipient :: uuid
  recipientModel :: recipient_model
  title :: string
  message :: string
  n_type :: notification_type
  isRead :: bool
  relatedId :: "uuid option"
  relatedType :: "string option"
  createdAt :: timestamp
  updatedAt :: timestamp

record rest_db =
  rest_teachers :: "rest_teacher list"
  rest_submissions :: "rest_submission list"
  rest_notifications :: "rest_notification list"

datatype http_error = Http nat string

text \<open>The \<^verbatim>\<open>enum\<close> validators of the submission schema.\<close>

definition status_enum :: "string list" where
  "status_enum = [''pending'', ''reviewed'', ''accepted'', ''declined'']"

definition paymentStatus_enum :: "string list" where
  "paymentStatus_enum = [''pending'', ''processing'', ''completed'']"

subsection \<open>Middleware\<close>

datatype admin_auth = No_token | Invalid_token | Admin_ok uuid

definition authenticateAdmin :: "admin_auth \<Rightarrow> http_error + uuid" where
  "authenticateAdmin auth =
     (case auth of
        No_token \<Rightarrow> Inl (Http 401 ''No token, authorization denied'')
      | Invalid_token \<Rightarrow> Inl (Http 401 ''Token is not valid'')
      | Admin_ok admin \<Rightarrow> Inr admin)"

definition validateSubmissionToken :: "string \<Rightarrow> http_error + string" where
  "validateSubmissionToken token =
     (if token = [] then Inl (Http 400 ''Token is required'') else Inr token)"

subsection \<open>\<^verbatim>\<open>PUT /submissions/:id/review\<close>\<close>

text \<open>
  The body's \<^verbatim>\<open>paymentAmount\<close> is used only when truthy, and \<^verbatim>\<open>save()\<close> validates the
  document: a status outside the schema's \<^verbatim>\<open>enum\<close> makes it throw, the handler answers
  500 and nothing is stored.  When the teacher the submission refers to is gone,
  \<^verbatim>\<open>populate\<close> leaves \<^verbatim>\<open>submission.teacher\<close> null and the handler fails at
  \<^verbatim>\<open>submission.teacher._id\<close>, after the document has been saved, and answers 500
  as well.  The message of the notification interpolates the raw body fields.
\<close>

record review_body =
  rb_status :: string
  rb_reviewNotes :: "string option"
  rb_paymentAmount :: "int option"

definition truthy_amount :: "int option \<Rightarrow> bool" where
  "truthy_amount a = (case a of None \<Rightarrow> False | Some x \<Rightarrow> x \<noteq> 0)"

definition review_submission ::
  "admin_auth \<Rightarrow> uuid \<Rightarrow> review_body \<Rightarrow> timestamp \<Rightarrow> uuid \<Rightarrow> rest_db
     \<Rightarrow> (http_error + rest_submission) \<times> rest_db" where
  "review_submission auth id' body now nid db =
     (case authenticateAdmin auth of
        Inl e \<Rightarrow> (Inl e, db)
      | Inr admin \<Rightarrow>
          (case find (\<lambda>s. s_id s = id') (rest_submissions db) of
             None \<Rightarrow> (Inl (Http 404 ''Submission not found''), db)
           | Some found \<Rightarrow>
               (let reviewed = found\<lparr>status := rb_status body,
                                     reviewNotes := (case rb_reviewNotes body of
                                                       None \<Rightarrow> [] | Some n \<Rightarrow> n),
                                     reviewedBy := Some admin,
                                     reviewedAt := Some now\<rparr>;
                    submission =
                      (if rb_status body = ''accepted'' \<and> truthy_amount (rb_paymentAmount body)
                       then reviewed\<lparr>paymentAmount := the (rb_paymentAmount body),
                                     paymentStatus := ''processing''\<rparr>
                       else reviewed)
                in if rb_status body \<notin> set status_enum
                   then (Inl (Http 500 ''Server error''), db)
                   else if find (\<lambda>t. t_id t = s_teacher found) (rest_teachers db) = None
                   then
                     (Inl (Http 500 ''Server error''),
                      db\<lparr>rest_submissions :=
                           update_first (\<lambda>s. s_id s = id') (\<lambda>_. submission) (rest_submissions db)\<rparr>)
                   else
                     (Inr submission,
                      db\<lparr>rest_submissions :=
                           update_first (\<lambda>s. s_id s = id') (\<lambda>_. submission) (rest_submissions db),
                         rest_notifications := rest_notifications db @
                           [\<lparr>n_id = nid,
                             recipient = s_teacher found,
                             recipientModel = Teacher,
                             title = ''Submission '' @ capitalize (rb_status body),
                             message =
                               (if rb_status body = ''accepted''
                                then ''Your submission has been accepted! Payment of '' @ rupee @
                                     show_opt_int (rb_paymentAmount body) @ '' is being processed.''
                                else ''Your submission has been '' @ rb_status body @ ''. '' @
                                     show_opt_string (rb_reviewNotes body)),
                             n_type =
                               (if rb_status body = ''accepted'' then Success_type
                                else if rb_status body = ''declined'' then Error_type else Info),
                             isRead = False,
                             relatedId = Some (s_id found),
                             relatedType = Some ''submission'',
                             createdAt = now, updatedAt = now\<rparr>]\<rparr>))))"

subsection \<open>\<^verbatim>\<open>PUT /submissions/:id/payment\<close>\<close>

definition process_payment ::
  "admin_auth \<Rightarrow> uuid \<Rightarrow> string \<Rightarrow> timestamp \<Rightarrow> uuid \<Rightarrow> rest_db
     \<Rightarrow> (http_error + rest_submission) \<times> rest_db" where
  "process_payment auth id' new_status now nid db =
     (case authenticateAdmin auth of
        Inl e \<Rightarrow> (Inl e, db)
      | Inr admin \<Rightarrow>
          (case find (\<lambda>s. s_id s = id') (rest_submissions db) of
             None \<Rightarrow> (Inl (Http 404 ''Submission not found''), db)
           | Some found \<Rightarrow>
               (let submission = found\<lparr>paymentStatus := new_status\<rparr>
                in if new_status \<notin> set paymentStatus_enum
                   then (Inl (Http 500 ''Server error''), db)
                   else if find (\<lambda>t. t_id t = s_teacher found) (rest_teachers db) = None
                   then
                     (Inl (Http 500 ''Server error''),
                      db\<lparr>rest_submissions :=
                           update_first (\<lambda>s. s_id s = id') (\<lambda>_. submission) (rest_submissions db)\<rparr>)
                   else
                     (Inr submission,
                      db\<lparr>rest_submissions :=
                           update_first (\<lambda>s. s_id s = id') (\<lambda>_. submission) (rest_submissions db),
                         rest_notifications := rest_notifications db @
                           [\<lparr>n_id = nid,
                             recipient = s_teacher found,
                             recipientModel = Teacher,
                             title = ''Payment Update'',
                             message =
                               (if new_status = ''completed''
                                then ''Payment of '' @ rupee @ show_int (paymentAmount submission) @
                                     '' has been completed!''
                                else ''Payment status updated to '' @ new_status),
                             n_type = (if new_status = ''completed'' then Success_type else Info),
                             isRead = False,
                             relatedId = Some (s_id found),
                             relatedType = Some ''payment'',
                             createdAt = now, updatedAt = now\<rparr>]\<rparr>))))"

subsection \<open>\<^verbatim>\<open>POST /submit/:token\<close>\<close>

text \<open>
  \<open>file\<close> is \<^verbatim>\<open>req.file\<close> as the upload middleware leaves it (its configuration is not
  part of the sources).  A required string of the submission schema must be present and
  non-empty; otherwise \<^verbatim>\<open>submission.save()\<close> throws before anything is written and
  the handler answers 500.
\<close>

record submit_body =
  sb_accountNumber :: "string option"
  sb_ifscCode :: "string option"
  sb_accountHolderName :: "string option"
  sb_subject :: "string option"
  sb_class :: "string option"
  sb_board :: "string option"
  sb_examType :: "string option"

record uploaded_file =
  f_filename :: string
  f_originalname :: string
  f_path :: string
  f_size :: nat

definition required_string :: "string option \<Rightarrow> bool" where
  "required_string x = (case x of None \<Rightarrow> False | Some s \<Rightarrow> s \<noteq> [])"

definition valid_submission :: "submit_body \<Rightarrow> uploaded_file \<Rightarrow> bool" where
  "valid_submission body file \<longleftrightarrow>
     required_string (sb_accountNumber body) \<and> required_string (sb_ifscCode body) \<and>
     required_string (sb_accountHolderName body) \<and> required_string (sb_subject body) \<and>
     required_string (sb_class body) \<and> required_string (sb_board body) \<and>
     required_string (sb_examType body) \<and>
     f_filename file \<noteq> [] \<and> f_originalname file \<noteq> [] \<and> f_path file \<noteq> []"

definition submit ::
  "string \<Rightarrow> submit_body \<Rightarrow> uploaded_file option \<Rightarrow> timestamp \<Rightarrow> uuid \<Rightarrow> uuid \<Rightarrow> uuid
     \<Rightarrow> rest_db \<Rightarrow> (http_error + string) \<times> rest_db" where
  "submit token body file now sid nid_admin nid_teacher db =
     (case validateSubmissionToken token of
        Inl e \<Rightarrow> (Inl e, db)
      | Inr _ \<Rightarrow>
          (case find (\<lambda>t. submissionToken t = token) (rest_teachers db) of
             None \<Rightarrow> (Inl (Http 404 ''Invalid submission link''), db)
           | Some teacher \<Rightarrow>
               if tokenExpiry teacher < now then
                 (Inl (Http 400 ''Submission link has expired''), db)
               else if hasSubmitted teacher then
                 (Inl (Http 400 ''Submission already completed''), db)
               else
                 (case file of
                    None \<Rightarrow> (Inl (Http 400 ''Question paper file is required''), db)
                  | Some f \<Rightarrow>
                      if \<not> valid_submission body f then (Inl (Http 500 ''Server error''), db)
                      else
                        (Inr ''Submission completed successfully'',
                         db\<lparr>rest_submissions := rest_submissions db @
                              [\<lparr>s_id = sid,
                                s_teacher = t_id teacher,
                                s_bankDetails =
                                  \<lparr>accountNumber = the (sb_accountNumber body),
                                   ifscCode = the (sb_ifscCode body),
                                   accountHolderName = the (sb_accountHolderName body)\<rparr>,
                                s_subjectDetails =
                                  \<lparr>subject = the (sb_subject body),
                                   className = the (sb_class body),
                                   board = the (sb_board body),
                                   examType = the (sb_examType body)\<rparr>,
                                s_questionPaper =
                                  \<lparr>qp_filename = f_filename f,
                                   qp_originalName = f_originalname f,
                                   qp_path = f_path f,
                                   qp_size = f_size f\<rparr>,
                                status = ''pending'',
                                reviewNotes = [],
                                paymentStatus = ''pending'',
                                paymentAmount = 0,
                                reviewedBy = None,
                                reviewedAt = None\<rparr>],
                            rest_teachers :=
                              update_first (\<lambda>t. submissionToken t = token)
                                (\<lambda>t. t\<lparr>hasSubmitted := True\<rparr>) (rest_teachers db),
                            rest_notifications := rest_notifications db @
                              [\<lparr>n_id = nid_admin,
                                recipient = addedBy teacher,
                                recipientModel = Admin,
                                title = ''New Submission Received'',
                                message = t_name teacher @
                                  '' has submitted their examination paper'',
                                n_type = Info,
                                isRead = False,
                                relatedId = Some sid,
                                relatedType = Some ''submission'',
                                createdAt = now, updatedAt = now\<rparr>,
                               \<lparr>n_id = nid_teacher,
                                recipient = t_id teacher,
                                recipientModel = Teacher,
                                title = ''Submission Successful'',
                                message = ''Your examination paper has been submitted '' @
                                  ''successfully and is under review'',
                                n_type = Success_type,
                                isRead = False,
                                relatedId = Some sid,
                                relatedType = Some ''submission'',
                                createdAt = now, updatedAt = now\<rparr>]\<rparr>))))"

text \<open>Retries: the same token submitted again and again, each time with its own input.\<close>

record submit_attempt =
  sa_body :: submit_body
  sa_file :: "uploaded_file option"
  sa_now :: timestamp
  sa_sid :: uuid
  sa_nid_admin :: uuid
  sa_nid_teacher :: uuid

fun submit_all ::
  "string \<Rightarrow> submit_attempt list \<Rightarrow> rest_db \<Rightarrow> (http_error + string) list \<times> rest_db" where
  "submit_all token [] db = ([], db)"
| "submit_all token (x # xs) db =
     (let r = submit token (sa_body x) (sa_file x) (sa_now x) (sa_sid x) (sa_nid_admin x)
                (sa_nid_teacher x) db;
          rest = submit_all token xs (snd r)
      in (fst r # fst rest, snd rest))"

subsection \<open>\<^verbatim>\<open>POST /add-teacher\<close>\<close>

text \<open>
  The teacher schema trims its strings and lower-cases the email; \<open>submissionToken\<close> stands
  for \<^verbatim>\<open>crypto.randomBytes(32).toString('hex')\<close> and carries a unique index.
\<close>

record add_teacher_body =
  at_name :: "string option"
  at_email :: "string option"
  at_phone :: "string option"

definition week_ms :: int where
  "week_ms = 7 * 24 * 60 * 60 * 1000"

definition add_teacher ::
  "admin_auth \<Rightarrow> add_teacher_body \<Rightarrow> string \<Rightarrow> timestamp \<Rightarrow> uuid \<Rightarrow> uuid \<Rightarrow> rest_db
     \<Rightarrow> (http_error + rest_teacher) \<times> rest_db" where
  "add_teacher auth body token now tid nid db =
     (case authenticateAdmin auth of
        Inl e \<Rightarrow> (Inl e, db)
      | Inr admin \<Rightarrow>
          (let name = trim (case at_name body of None \<Rightarrow> [] | Some s \<Rightarrow> s);
               email = map toLowerCase_char (trim (case at_email body of None \<Rightarrow> [] | Some s \<Rightarrow> s));
               phone = trim (case at_phone body of None \<Rightarrow> [] | Some s \<Rightarrow> s)
           in if at_email body \<noteq> None \<and> find (\<lambda>t. t_email t = email) (rest_teachers db) \<noteq> None
              then (Inl (Http 400 ''Teacher with this email already exists''), db)
              else if name = [] \<or> email = [] \<or> phone = []
                      \<or> find (\<lambda>t. submissionToken t = token) (rest_teachers db) \<noteq> None
              then (Inl (Http 500 ''Server error''), db)
              else
                (let teacher = \<lparr>t_id = tid, t_name = name, t_email = email, t_phone = phone,
                                submissionToken = token, tokenExpiry = now + week_ms,
                                hasSubmitted = False, addedBy = admin\<rparr>
                 in (Inr teacher,
                     db\<lparr>rest_teachers := rest_teachers db @ [teacher],
                        rest_notifications := rest_notifications db @
                          [\<lparr>n_id = nid,
                            recipient = admin,
                            recipientModel = Admin,
                            title = ''Teacher Added'',
                            message = ''Teacher '' @ show_opt_string (at_name body) @
                              '' has been added successfully'',
                            n_type = Success_type,
                            isRead = False,
                            relatedId = Some tid,
                            relatedType = Some ''teacher'',
                            createdAt = now, updatedAt = now\<rparr>]\<rparr>))))"

subsection \<open>\<^verbatim>\<open>PUT /:id/read\<close>\<close>

text \<open>
  \<^verbatim>\<open>findByIdAndUpdate(id, { isRead: true }, { new: true })\<close> on a schema with
  \<^verbatim>\<open>timestamps: true\<close> also refreshes \<^verbatim>\<open>updatedAt\<close>.
\<close>

definition mark_read ::
  "uuid \<Rightarrow> timestamp \<Rightarrow> rest_db \<Rightarrow> (http_error + rest_notification) \<times> rest_db" where
  "mark_read id' now db =
     (case find (\<lambda>n. n_id n = id') (rest_notifications db) of
        None \<Rightarrow> (Inl (Http 404 ''Notification not found''), db)
      | Some notification \<Rightarrow>
          (Inr (notification\<lparr>isRead := True, updatedAt := now\<rparr>),
           db\<lparr>rest_notifications :=
                update_first (\<lambda>n. n_id n = id') (\<lambda>n. n\<lparr>isRead := True, updatedAt := now\<rparr>)
                  (rest_notifications db)\<rparr>))"

subsection \<open>The routes as operations on the database\<close>

text \<open>
  These are all the routes of the REST variant that write to a collection; the remaining
  routes of the notification, admin and teacher routers only issue \<^verbatim>\<open>find\<close> and
  \<^verbatim>\<open>countDocuments\<close> queries.
\<close>

datatype rest_op =
    Add_teacher admin_auth add_teacher_body string timestamp uuid uuid
  | Review_submission admin_auth uuid review_body timestamp uuid
  | Process_payment admin_auth uuid string timestamp uuid
  | Submit string submit_body "uploaded_file option" timestamp uuid uuid uuid
  | Mark_read uuid timestamp

fun rest_step :: "rest_op \<Rightarrow> rest_db \<Rightarrow> rest_db" where
  "rest_step (Add_teacher auth body token now tid nid) db =
     snd (add_teacher auth body token now tid nid db)"
| "rest_step (Review_submission auth id' body now nid) db =
     snd (review_submission auth id' body now nid db)"
| "rest_step (Process_payment auth id' new_status now nid) db =
     snd (process_payment auth id' new_status now nid db)"
| "rest_step (Submit token body file now sid nid_admin nid_teacher) db =
     snd (submit token body file now sid nid_admin nid_teacher db)"
| "rest_step (Mark_read id' now) db = snd (mark_read id' now db)"

fun rest_run :: "rest_op list \<Rightarrow> rest_db \<Rightarrow> rest_db" where
  "rest_run [] db = db"
| "rest_run (op # ops) db = rest_run ops (rest_step op db)"

text \<open>
  What may happen to a stored notification: nothing, or the read flag is set (and the
  modification time refreshed).
\<close>

definition read_or_same :: "rest_notification \<Rightarrow> rest_notification \<Rightarrow> bool" where
  "read_or_same n n' \<longleftrightarrow> n' = n \<or> n' = n\<lparr>isRead := True, updatedAt := updatedAt n'\<rparr>"

definition extends :: "rest_notification list \<Rightarrow> rest_notification list \<Rightarrow> bool" where
  "extends xs ys \<longleftrightarrow> (\<exists>olds news. ys = olds @ news \<and> list_all2 read_or_same xs olds)"

text \<open>
  The mark-as-read requests of a sequence of operations, applied in order to a list of
  notifications; every other operation is skipped.
\<close>

fun marks_only :: "rest_op list \<Rightarrow> rest_notification list \<Rightarrow> rest_notification list" where
  "marks_only [] ns = ns"
| "marks_only (Mark_read id' now # ops) ns =
     marks_only ops
       (update_first (\<lambda>n. n_id n = id') (\<lambda>n. n\<lparr>isRead := True, updatedAt := now\<rparr>) ns)"
| "marks_only (other # ops) ns = marks_only ops ns"

section \<open>Hosted-Postgres variant: the client services\<close>

text \<open>
  The services call the database through the client SDK, which reports a failed statement
  as an \<^verbatim>\<open>error\<close> field; a service that does not inspect it carries on.  The realtime
  trigger on \<^verbatim>\<open>submissions\<close> (it only appends to \<^verbatim>\<open>realtime_events\<close>) and foreign
  keys into \<^verbatim>\<open>profiles\<close> are left out; the \<^verbatim>\<open>NOT NULL\<close> constraint on
  \<^verbatim>\<open>notifications.recipient_id\<close> and the foreign key \<^verbatim>\<open>submissions.teacher_id\<close> are
  modelled, since a service depends on them.  Row-level security is modelled for
  \<^verbatim>\<open>submitExaminationPaper\<close>, which runs in the session of whoever submits; for the
  review component and the profile services it is left out.
\<close>

datatype client_error =
    Not_authenticated
  | Upload_failed
  | Not_null_violation
  | Foreign_key_violation
  | Numeric_field_overflow
  | No_row_returned
  | Unique_email_violation
  | Row_security_violation

subsection \<open>\<^verbatim>\<open>create_notification(p_recipient_id, p_title, p_message, p_type, p_related_id, p_related_type)\<close>\<close>

definition create_notification ::
  "uuid option \<Rightarrow> string \<Rightarrow> string \<Rightarrow> notification_type \<Rightarrow> uuid option \<Rightarrow> string option
     \<Rightarrow> uuid \<Rightarrow> pg_db \<Rightarrow> (client_error + uuid) \<times> pg_db" where
  "create_notification p_recipient_id p_title p_message p_type p_related_id p_related_type
     notification_id db =
     (case p_recipient_id of
        None \<Rightarrow> (Inl Not_null_violation, db)
      | Some r \<Rightarrow>
          (Inr notification_id,
           db\<lparr>notifications := notifications db @
                [\<lparr>sn_id = notification_id, sn_recipient_id = r, sn_title = p_title,
                  sn_message = p_message, sn_type = p_type, sn_is_read = False,
                  sn_related_id = p_related_id, sn_related_type = p_related_type\<rparr>]\<rparr>))"

subsection \<open>\<^verbatim>\<open>SubmissionManagement.handleReview(submissionId, status)\<close>\<close>

text \<open>
  The component holds the fetched submissions, the review notes and the payment amount
  typed into the dialog.  The parameter \<^verbatim>\<open>status\<close> has the type
  \<^verbatim>\<open>'approved' | 'rejected'\<close>.  The column \<^verbatim>\<open>payment_amount\<close> is
  \<^verbatim>\<open>decimal(10,2)\<close>; amounts are whole numbers here.
\<close>

record review_ui =
  ui_submissions :: "sb_submission list"
  ui_reviewNotes :: string
  ui_paymentAmount :: int
  ui_selectedSubmission :: "sb_submission option"

datatype review_decision = Approve | Reject

definition decision_status :: "review_decision \<Rightarrow> sb_status" where
  "decision_status d = (case d of Approve \<Rightarrow> Approved | Reject \<Rightarrow> Rejected)"

definition decision_word :: "review_decision \<Rightarrow> string" where
  "decision_word d = (case d of Approve \<Rightarrow> ''approved'' | Reject \<Rightarrow> ''rejected'')"

definition fetchSubmissions :: "pg_db \<Rightarrow> sb_submission list" where
  "fetchSubmissions db = rev (sort_key sub_created_at (submissions db))"

definition handleReview ::
  "uuid option \<Rightarrow> uuid \<Rightarrow> review_decision \<Rightarrow> timestamp \<Rightarrow> uuid \<Rightarrow> review_ui \<times> pg_db
     \<Rightarrow> (client_error + unit) \<times> review_ui \<times> pg_db" where
  "handleReview user submissionId decision now nid state =
     (let ui = fst state; db = snd state in
      case user of
        None \<Rightarrow> (Inl Not_authenticated, ui, db)
      | Some uid \<Rightarrow>
          if decision = Approve \<and> ui_paymentAmount ui > 0 \<and> ui_paymentAmount ui \<ge> 100000000
          then (Inl Numeric_field_overflow, ui, db)
          else
            (let db1 = db\<lparr>submissions :=
                   update_first (\<lambda>s. sub_id s = submissionId)
                     (\<lambda>s. (if decision = Approve \<and> ui_paymentAmount ui > 0
                            then s\<lparr>sub_payment_amount := ui_paymentAmount ui,
                                   sub_payment_status := Payment_processing\<rparr>
                            else s)
                           \<lparr>sub_status := decision_status decision,
                            sub_review_notes := ui_reviewNotes ui,
                            sub_reviewed_by := Some uid,
                            sub_reviewed_at := Some now,
                            sub_updated_at := now\<rparr>)
                     (submissions db)\<rparr>;
                 db2 =
                   (case find (\<lambda>s. sub_id s = submissionId) (ui_submissions ui) of
                      None \<Rightarrow> db1
                    | Some submission \<Rightarrow>
                        (case find (\<lambda>t. st_id t = sub_teacher_id submission) (teachers db1) of
                           None \<Rightarrow> db1
                         | Some teacher \<Rightarrow>
                             (case st_profile_id teacher of
                                None \<Rightarrow> db1
                              | Some profile_id \<Rightarrow>
                                  snd (create_notification (Some profile_id)
                                         (''Submission '' @ capitalize (decision_word decision))
                                         (if decision = Approve
                                          then ''Your submission has been approved! Payment of '' @
                                               rupee @ show_int (ui_paymentAmount ui) @
                                               '' is being processed.''
                                          else ''Your submission has been '' @
                                               decision_word decision @ ''. '' @ ui_reviewNotes ui)
                                         (if decision = Approve then Success_type else Error_type)
                                         (Some submissionId) (Some ''submission'') nid db1))))
             in (Inr (),
                 \<lparr>ui_submissions = fetchSubmissions db2, ui_reviewNotes = [],
                  ui_paymentAmount = 0, ui_selectedSubmission = None\<rparr>,
                 db2)))"

text \<open>A sequence of reviews issued from the component.\<close>

record review_call =
  rc_user :: "uuid option"
  rc_submissionId :: uuid
  rc_decision :: review_decision
  rc_reviewNotes :: string
  rc_paymentAmount :: int
  rc_now :: timestamp
  rc_nid :: uuid

fun review_all :: "review_call list \<Rightarrow> review_ui \<times> pg_db \<Rightarrow> review_ui \<times> pg_db" where
  "review_all [] state = state"
| "review_all (c # cs) state =
     review_all cs
       (snd (handleReview (rc_user c) (rc_submissionId c) (rc_decision c) (rc_now c) (rc_nid c)
               (fst state\<lparr>ui_reviewNotes := rc_reviewNotes c,
                           ui_paymentAmount := rc_paymentAmount c\<rparr>, snd state)))"

definition settled :: "sb_status \<Rightarrow> bool" where
  "settled s \<longleftrightarrow> s = Approved \<or> s = Rejected"

definition keeps_settled :: "sb_submission \<Rightarrow> sb_submission \<Rightarrow> bool" where
  "keeps_settled s s' \<longleftrightarrow>
     sub_id s' = sub_id s \<and> (settled (sub_status s) \<longrightarrow> settled (sub_status s'))"

subsection \<open>\<^verbatim>\<open>TeacherAuthService.submitExaminationPaper(submissionData)\<close>\<close>

text \<open>
  \<open>user\<close> is \<^verbatim>\<open>auth.uid()\<close> of the session the service runs in.  The policies on
  \<^verbatim>\<open>submissions\<close> admit an insert by an admin, or by the profile the teacher row
  belongs to; the policies on \<^verbatim>\<open>teachers\<close> let an admin write and read every row and
  let a teacher only read the own row, so the update of \<^verbatim>\<open>has_submitted\<close> issued in a
  teacher's session changes no row and reports no error.
\<close>

definition is_admin :: "uuid \<Rightarrow> pg_db \<Rightarrow> bool" where
  "is_admin uid db \<longleftrightarrow> (\<exists>p \<in> set (profiles db). p_id p = uid \<and> p_role p = Admin_role)"

definition may_insert_submission :: "uuid option \<Rightarrow> uuid \<Rightarrow> pg_db \<Rightarrow> bool" where
  "may_insert_submission user teacher_id db =
     (case user of
        None \<Rightarrow> False
      | Some uid \<Rightarrow>
          is_admin uid db
          \<or> (\<exists>t \<in> set (teachers db). st_id t = teacher_id \<and> st_profile_id t = Some uid))"

definition may_update_teachers :: "uuid option \<Rightarrow> pg_db \<Rightarrow> bool" where
  "may_update_teachers user db = (case user of None \<Rightarrow> False | Some uid \<Rightarrow> is_admin uid db)"

definition may_read_teacher :: "uuid option \<Rightarrow> pg_db \<Rightarrow> sb_teacher \<Rightarrow> bool" where
  "may_read_teacher user db t =
     (case user of None \<Rightarrow> False | Some uid \<Rightarrow> is_admin uid db \<or> st_profile_id t = Some uid)"

text \<open>
  The query that reads the teacher back embeds \<^verbatim>\<open>profiles\<close> twice: once as
  \<^verbatim>\<open>profile:profiles(full_name)\<close>, without naming a foreign key, and once as
  \<^verbatim>\<open>added_by_profile:profiles!teachers_added_by_fkey(id, full_name)\<close>.  The table
  \<^verbatim>\<open>teachers\<close> has two foreign keys into \<^verbatim>\<open>profiles\<close> (\<^verbatim>\<open>profile_id\<close> and
  \<^verbatim>\<open>added_by\<close>).  The REST layer of the platform resolves an embed that names no foreign
  key only when exactly one relationship joins the two tables, and otherwise answers with
  an error; the SDK then delivers \<^verbatim>\<open>data: null\<close>, and the guard \<^verbatim>\<open>if (teacher)\<close>
  skips the notifications.
\<close>

datatype embed_hint = Unhinted | Hinted string

definition teachers_profiles_fkeys :: "string list" where
  "teachers_profiles_fkeys = [''teachers_profile_id_fkey'', ''teachers_added_by_fkey'']"

definition embed_resolves :: "string list \<Rightarrow> embed_hint \<Rightarrow> bool" where
  "embed_resolves fkeys h = (case h of Unhinted \<Rightarrow> length fkeys = 1 | Hinted c \<Rightarrow> c \<in> set fkeys)"

definition read_back_teacher :: "uuid option \<Rightarrow> uuid \<Rightarrow> pg_db \<Rightarrow> sb_teacher option" where
  "read_back_teacher user teacher_id db =
     (if embed_resolves teachers_profiles_fkeys Unhinted
         \<and> embed_resolves teachers_profiles_fkeys (Hinted ''teachers_added_by_fkey'')
      then find (\<lambda>t. st_id t = teacher_id \<and> may_read_teacher user db t) (teachers db)
      else None)"

text \<open>
  The two calls inside \<^verbatim>\<open>if (teacher)\<close>.  Neither result is inspected: a call the
  database refuses leaves no row and the service carries on.
\<close>

record submission_data =
  sd_teacherId :: uuid
  sd_bankDetails :: sb_bank_details
  sd_subjectDetails :: sb_subject_details
  sd_fileName :: string

definition notify_submission ::
  "sb_teacher \<Rightarrow> submission_data \<Rightarrow> uuid \<Rightarrow> uuid \<Rightarrow> uuid \<Rightarrow> pg_db \<Rightarrow> pg_db" where
  "notify_submission teacher submissionData sid nid_teacher nid_admin db =
     (let db2 = snd (create_notification (st_profile_id teacher)
                       ''Submission Successful''
                       (''Your '' @ sd_subject (sd_subjectDetails submissionData) @
                        '' examination paper has been submitted successfully '' @
                        ''and is under review.'')
                       Success_type (Some sid) (Some ''submission'') nid_teacher db);
          full_name =
            (case st_profile_id teacher of
               None \<Rightarrow> None
             | Some pid \<Rightarrow> map_option p_full_name (find (\<lambda>p. p_id p = pid) (profiles db2)))
      in snd (create_notification (st_added_by teacher)
                ''New Submission Received''
                (show_opt_string full_name @ '' has submitted a '' @
                 sd_subject (sd_subjectDetails submissionData) @
                 '' examination paper for review.'')
                Info (Some sid) (Some ''submission'') nid_admin db2))"

text \<open>
  \<open>upload_ok\<close> and \<open>publicUrl\<close> are the answers of the storage service.  The result of
  the update of the teacher is not inspected.
\<close>

definition submitExaminationPaper ::
  "uuid option \<Rightarrow> submission_data \<Rightarrow> bool \<Rightarrow> string \<Rightarrow> timestamp \<Rightarrow> uuid \<Rightarrow> uuid \<Rightarrow> uuid \<Rightarrow> pg_db
     \<Rightarrow> (client_error + sb_submission) \<times> pg_db" where
  "submitExaminationPaper user submissionData upload_ok publicUrl now sid nid_teacher
     nid_admin db =
     (if \<not> upload_ok then (Inl Upload_failed, db)
      else if \<not> may_insert_submission user (sd_teacherId submissionData) db
      then (Inl Row_security_violation, db)
      else if find (\<lambda>t. st_id t = sd_teacherId submissionData) (teachers db) = None
      then (Inl Foreign_key_violation, db)
      else
        (let submission =
               \<lparr>sub_id = sid,
                sub_teacher_id = sd_teacherId submissionData,
                sub_bank_details = sd_bankDetails submissionData,
                sub_subject_details = sd_subjectDetails submissionData,
                sub_question_paper_url = publicUrl,
                sub_question_paper_name = sd_fileName submissionData,
                sub_status = Pending,
                sub_review_notes = [],
                sub_payment_status = Payment_pending,
                sub_payment_amount = 0,
                sub_reviewed_by = None,
                sub_reviewed_at = None,
                sub_created_at = now,
                sub_updated_at = now\<rparr>;
             db1 = db\<lparr>submissions := submissions db @ [submission],
                      teachers :=
                        (if may_update_teachers user db
                         then update_first (\<lambda>t. st_id t = sd_teacherId submissionData)
                                (\<lambda>t. t\<lparr>st_has_submitted := True, st_updated_at := now\<rparr>)
                                (teachers db)
                         else teachers db)\<rparr>
         in case read_back_teacher user (sd_teacherId submissionData) db1 of
              None \<Rightarrow> (Inr submission, db1)
            | Some teacher \<Rightarrow>
                (Inr submission,
                 notify_submission teacher submissionData sid nid_teacher nid_admin db1)))"

subsection \<open>\<^verbatim>\<open>AuthService.getProfileFast\<close> and \<^verbatim>\<open>AuthService.updateProfile\<close>\<close>

text \<open>
  \<^verbatim>\<open>profileCache\<close> maps a user id to a profile and the time its entry expires.  The
  remote procedure \<^verbatim>\<open>get_profile_fast\<close> and the fallback query both read the row with
  the given id.  The update statement is refused when it would move the row to another id
  (the policy on \<^verbatim>\<open>profiles\<close> requires \<^verbatim>\<open>auth.uid() = id\<close>) or repeat another
  profile's email (\<^verbatim>\<open>UNIQUE\<close>), and \<^verbatim>\<open>.single()\<close> fails when no row was updated.
\<close>

record profile_updates =
  u_id :: "uuid option"
  u_email :: "string option"
  u_full_name :: "string option"
  u_role :: "role option"
  u_avatar_url :: "string option"
  u_phone :: "string option"
  u_is_active :: "bool option"
  u_last_login :: "timestamp option"
  u_created_at :: "timestamp option"
  u_updated_at :: "timestamp option"

record cache_entry =
  ce_profile :: profile
  ce_expires :: int

text \<open>\<^verbatim>\<open>{ ...updates, updated_at: new Date().toISOString() }\<close> applied to a row.\<close>

definition or_else :: "'a option \<Rightarrow> 'a \<Rightarrow> 'a" where
  "or_else x d = (case x of None \<Rightarrow> d | Some v \<Rightarrow> v)"

definition apply_updates :: "profile_updates \<Rightarrow> timestamp \<Rightarrow> profile \<Rightarrow> profile" where
  "apply_updates updates now row =
     \<lparr>p_id = or_else (u_id updates) (p_id row),
      p_email = or_else (u_email updates) (p_email row),
      p_full_name = or_else (u_full_name updates) (p_full_name row),
      p_role = or_else (u_role updates) (p_role row),
      p_avatar_url = coalesce (u_avatar_url updates) (p_avatar_url row),
      p_phone = coalesce (u_phone updates) (p_phone row),
      p_is_active = or_else (u_is_active updates) (p_is_active row),
      p_last_login = coalesce (u_last_login updates) (p_last_login row),
      p_created_at = or_else (u_created_at updates) (p_created_at row),
      p_updated_at = now\<rparr>"

definition getProfileFast ::
  "uuid \<Rightarrow> int \<Rightarrow> (uuid \<rightharpoonup> cache_entry) \<times> pg_db \<Rightarrow> profile option \<times> (uuid \<rightharpoonup> cache_entry)" where
  "getProfileFast userId now state =
     (let profileCache = fst state; db = snd state in
      case (case profileCache userId of
              None \<Rightarrow> None
            | Some cached \<Rightarrow> if now < ce_expires cached then Some (ce_profile cached) else None) of
        Some hit \<Rightarrow> (Some hit, profileCache)
      | None \<Rightarrow>
          (case find (\<lambda>p. p_id p = userId) (profiles db) of
             None \<Rightarrow> (None, profileCache)
           | Some data \<Rightarrow>
               (Some data,
                profileCache(userId \<mapsto> \<lparr>ce_profile = data, ce_expires = now + 5 * 60 * 1000\<rparr>))))"

definition updateProfile ::
  "uuid option \<Rightarrow> profile_updates \<Rightarrow> timestamp \<Rightarrow> (uuid \<rightharpoonup> cache_entry) \<times> pg_db
     \<Rightarrow> (client_error + profile) \<times> (uuid \<rightharpoonup> cache_entry) \<times> pg_db" where
  "updateProfile user updates now state =
     (let profileCache = fst state; db = snd state in
      case user of
        None \<Rightarrow> (Inl Not_authenticated, profileCache, db)
      | Some uid \<Rightarrow>
          (case find (\<lambda>p. p_id p = uid) (profiles db) of
             None \<Rightarrow> (Inl No_row_returned, profileCache, db)
           | Some row \<Rightarrow>
               (let data = apply_updates updates now row in
                if p_id data \<noteq> uid then (Inl Row_security_violation, profileCache, db)
                else if \<exists>p \<in> set (profiles db). p_id p \<noteq> uid \<and> p_email p = p_email data
                then (Inl Unique_email_violation, profileCache, db)
                else
                  (Inr data,
                   profileCache(uid := None),
                   db\<lparr>profiles := update_first (\<lambda>p. p_id p = uid) (\<lambda>_. data) (profiles db)\<rparr>))))"

section \<open>Concrete states used by the witnesses and counterexamples\<close>

definition ex_expired_db :: pg_db where
  "ex_expired_db =
     \<lparr>rate_limits = [],
      url_validations =
        [\<lparr>uv_token = ''a3f1'', uv_token_type = ''submission'', uv_user_id = Some 7,
          uv_ip_address = None, uv_user_agent = None, uv_is_valid = True,
          uv_validation_count = 0, uv_last_validated_at = 0, uv_expires_at = 100\<rparr>],
      security_events = [], teachers = [], realtime_events = [], submissions = [],
      notifications = [], profiles = []\<rparr>"

definition ex_call :: validate_call where
  "ex_call = \<lparr>vc_token = ''a3f1'', vc_token_type = ''submission'',
              vc_ip_address = Some ''10.0.0.1'', vc_user_agent = None, vc_now = 200\<rparr>"

definition ex_teacher_db :: pg_db where
  "ex_teacher_db =
     \<lparr>rate_limits = [], url_validations = [], security_events = [],
      teachers =
        [\<lparr>st_id = 1, st_profile_id = Some 7, st_submission_token = ''0000'',
          st_token_expires_at = 0, st_has_submitted = False, st_added_by = Some 2,
          st_updated_at = 0\<rparr>],
      realtime_events = [], submissions = [], notifications = [], profiles = []\<rparr>"

definition ex_submission :: sb_submission where
  "ex_submission =
     \<lparr>sub_id = 11, sub_teacher_id = 1,
      sub_bank_details = \<lparr>account_number = ''001122'', ifsc_code = ''HDFC0001'',
                          account_holder_name = ''A Rao''\<rparr>,
      sub_subject_details = \<lparr>sd_subject = ''Math'', sd_class = ''10'', sd_board = ''CBSE'',
                             sd_exam_type = ''Final''\<rparr>,
      sub_question_paper_url = ''https://files/1-5.pdf'', sub_question_paper_name = ''math.pdf'',
      sub_status = Pending, sub_review_notes = [], sub_payment_status = Payment_pending,
      sub_payment_amount = 0, sub_reviewed_by = None, sub_reviewed_at = None,
      sub_created_at = 5, sub_updated_at = 5\<rparr>"

definition ex_review_db :: pg_db where
  "ex_review_db = ex_teacher_db\<lparr>submissions := [ex_submission]\<rparr>"

definition ex_review_ui :: review_ui where
  "ex_review_ui = \<lparr>ui_submissions = [ex_submission], ui_reviewNotes = ''well set'',
                    ui_paymentAmount = 500, ui_selectedSubmission = Some ex_submission\<rparr>"

definition ex_rest_teacher :: rest_teacher where
  "ex_rest_teacher =
     \<lparr>t_id = 1, t_name = ''A Rao'', t_email = ''rao@example.org'', t_phone = ''5550100'',
      submissionToken = ''c4d5'', tokenExpiry = 100, hasSubmitted = True, addedBy = 2\<rparr>"

definition ex_rest_submission :: rest_submission where
  "ex_rest_submission =
     \<lparr>s_id = 11, s_teacher = 1,
      s_bankDetails = \<lparr>accountNumber = ''001122'', ifscCode = ''HDFC0001'',
                       accountHolderName = ''A Rao''\<rparr>,
      s_subjectDetails = \<lparr>subject = ''Math'', className = ''10'', board = ''CBSE'',
                          examType = ''Final''\<rparr>,
      s_questionPaper = \<lparr>qp_filename = ''q1.pdf'', qp_originalName = ''math.pdf'',
                         qp_path = ''uploads/q1.pdf'', qp_size = 1024\<rparr>,
      status = ''pending'', reviewNotes = [], paymentStatus = ''pending'', paymentAmount = 0,
      reviewedBy = None, reviewedAt = None\<rparr>"

definition ex_rest_db :: rest_db where
  "ex_rest_db = \<lparr>rest_teachers = [ex_rest_teacher], rest_submissions = [ex_rest_submission],
                  rest_notifications = []\<rparr>"

definition ex_approved_db :: pg_db where
  "ex_approved_db =
     ex_teacher_db\<lparr>submissions :=
       [ex_submission\<lparr>sub_status := Approved, sub_payment_status := Payment_processing,
                      sub_payment_amount := 500\<rparr>]\<rparr>"

definition ex_reject_call :: review_call where
  "ex_reject_call = \<lparr>rc_user = Some 2, rc_submissionId = 11, rc_decision = Reject,
                      rc_reviewNotes = ''second look'', rc_paymentAmount = 0, rc_now = 60,
                      rc_nid = 22\<rparr>"

definition ex_accepted_rest_db :: rest_db where
  "ex_accepted_rest_db =
     ex_rest_db\<lparr>rest_submissions :=
       [ex_rest_submission\<lparr>status := ''accepted'', paymentStatus := ''processing'',
                           paymentAmount := 500\<rparr>]\<rparr>"

definition ex_submission_data :: submission_data where
  "ex_submission_data =
     \<lparr>sd_teacherId = 1,
      sd_bankDetails = \<lparr>account_number = ''001122'', ifsc_code = ''HDFC0001'',
                        account_holder_name = ''A Rao''\<rparr>,
      sd_subjectDetails = \<lparr>sd_subject = ''Math'', sd_class = ''10'', sd_board = ''CBSE'',
                           sd_exam_type = ''Final''\<rparr>,
      sd_fileName = ''math.pdf''\<rparr>"

definition ex_submit_body :: submit_body where
  "ex_submit_body =
     \<lparr>sb_accountNumber = Some ''001122'', sb_ifscCode = Some ''HDFC0001'',
      sb_accountHolderName = Some ''A Rao'', sb_subject = Some ''Math'',
      sb_class = Some ''10'', sb_board = Some ''CBSE'', sb_examType = Some ''Final''\<rparr>"

definition ex_file :: uploaded_file where
  "ex_file = \<lparr>f_filename = ''q1.pdf'', f_originalname = ''math.pdf'',
              f_path = ''uploads/q1.pdf'', f_size = 1024\<rparr>"

definition ex_open_rest_db :: rest_db where
  "ex_open_rest_db =
     \<lparr>rest_teachers = [ex_rest_teacher\<lparr>hasSubmitted := False\<rparr>], rest_submissions = [],
      rest_notifications = []\<rparr>"

definition ex_profile :: profile where
  "ex_profile =
     \<lparr>p_id = 7, p_email = ''rao@example.org'', p_full_name = ''A Rao'', p_role = Teacher_role,
      p_avatar_url = None, p_phone = None, p_is_active = True, p_last_login = None,
      p_created_at = 0, p_updated_at = 0\<rparr>"

definition ex_admin_profile :: profile where
  "ex_admin_profile =
     \<lparr>p_id = 2, p_email = ''admin@example.org'', p_full_name = ''S Iyer'', p_role = Admin_role,
      p_avatar_url = None, p_phone = None, p_is_active = True, p_last_login = None,
      p_created_at = 0, p_updated_at = 0\<rparr>"

definition ex_portal_db :: pg_db where
  "ex_portal_db = ex_teacher_db\<lparr>profiles := [ex_admin_profile, ex_profile]\<rparr>"

definition ex_profile_db :: pg_db where
  "ex_profile_db = ex_teacher_db\<lparr>profiles := [ex_profile]\<rparr>"

definition ex_cache :: "uuid \<rightharpoonup> cache_entry" where
  "ex_cache = [7 \<mapsto> \<lparr>ce_profile = ex_profile, ce_expires = 300000\<rparr>]"

definition no_updates :: profile_updates where
  "no_updates =
     \<lparr>u_id = None, u_email = None, u_full_name = None, u_role = None, u_avatar_url = None,
      u_phone = None, u_is_active = None, u_last_login = None, u_created_at = None,
      u_updated_at = None\<rparr>"

section \<open>Auxiliary facts about tables\<close>

lemma find_update_first_other:
  "(\<And>x. Q (f x) = Q x) \<Longrightarrow> (\<And>x. g (f x) = g x) \<Longrightarrow>
   map_option g (find Q (update_first P f xs)) = map_option g (find Q xs)"
  by (induction xs) auto

lemma find_update_first_same:
  "(\<And>x. P (f x) = P x) \<Longrightarrow> find P (update_first P f xs) = map_option f (find P xs)"
  by (induction xs) auto

lemma find_update_first_const:
  "P y \<Longrightarrow> find P (update_first P (\<lambda>_. y) xs) = map_option (\<lambda>_. y) (find P xs)"
  by (induction xs) auto

lemma find_update_first_disjoint:
  "(\<And>x. Q x \<Longrightarrow> \<not> P x \<and> \<not> P (f x)) \<Longrightarrow> find P (update_first Q f xs) = find P xs"
  by (induction xs) auto

lemma find_snoc:
  "find P (xs @ [y]) = (case find P xs of None \<Rightarrow> (if P y then Some y else None) | Some x \<Rightarrow> Some x)"
  by (induction xs) auto

lemma list_all2_update_first:
  "(\<And>x. R x x) \<Longrightarrow> (\<And>x. R x (f x)) \<Longrightarrow> list_all2 R xs (update_first P f xs)"
  by (induction xs) (auto simp: list_all2_refl)

lemma update_first_none: "find P xs = None \<Longrightarrow> update_first P f xs = xs"
  by (induction xs) (auto split: if_splits)

lemma take_update_first: "take k (update_first P f xs) = update_first P f (take k xs)"
  by (induction xs arbitrary: k) (auto simp: take_Cons')

lemma length_update_first: "length (update_first P f xs) = length xs"
  by (induction xs) auto

lemma map_update_first: "(\<And>x. g (f x) = g x) \<Longrightarrow> map g (update_first P f xs) = map g xs"
  by (induction xs) auto

lemma filter_update_first:
  "(\<And>x. P x \<Longrightarrow> \<not> Q x \<and> \<not> Q (f x)) \<Longrightarrow>
   filter Q (update_first P f xs) = filter Q xs"
  by (induction xs) auto

section \<open>The token validator\<close>

lemma validate_lookup_expiry:
  "map_option uv_expires_at
     (find (uv_key tok ty) (url_validations (snd (validate_lookup tok' ty' ip ua now db)))) =
   map_option uv_expires_at (find (uv_key tok ty) (url_validations db))"
  by (simp add: validate_lookup_def find_update_first_other uv_key_def
        split: option.splits)

lemma fst_rollback_to [simp]: "fst (rollback_to s r) = fst r"
  by (cases r) (auto simp: rollback_to_def split: sum.splits)

lemma snd_rollback_to: "snd (rollback_to s r) = (case fst r of Inl e \<Rightarrow> s | Inr v \<Rightarrow> snd r)"
  by (cases r) (auto simp: rollback_to_def split: sum.splits)

lemma validate_url_token_expiry:
  "map_option uv_expires_at
     (find (uv_key tok ty) (url_validations (snd (validate_url_token tok' ty' ip ua now db)))) =
   map_option uv_expires_at (find (uv_key tok ty) (url_validations db))"
proof -
  have *: "map_option uv_expires_at (find (uv_key tok ty)
             (url_validations (snd (validate_lookup tok' ty' ip ua now (db\<lparr>rate_limits := rl\<rparr>))))) =
           map_option uv_expires_at (find (uv_key tok ty) (url_validations db))" for rl
    using validate_lookup_expiry[of tok ty tok' ty' ip ua now "db\<lparr>rate_limits := rl\<rparr>"]
    by simp
  show ?thesis
  proof (cases ip)
    case None
    then show ?thesis
      using *[of "rate_limits db"]
      by (simp add: validate_url_token_def snd_rollback_to split: sum.splits)
  next
    case (Some i)
    then show ?thesis
      using *[of "snd (check_rate_limit i ''url_validation'' 10 minute now (rate_limits db))"]
      by (simp add: validate_url_token_def snd_rollback_to Let_def split: sum.splits)
  qed
qed

lemma validate_all_expiry:
  "map_option uv_expires_at (find (uv_key tok ty) (url_validations (validate_all cs db))) =
   map_option uv_expires_at (find (uv_key tok ty) (url_validations db))"
  by (induction cs arbitrary: db) (simp_all add: validate_url_token_expiry)

lemma validate_lookup_expired:
  assumes "find (uv_key tok ty) (url_validations db) = Some r" and "uv_expires_at r < now"
  shows "fst (validate_lookup tok ty ip ua now db) = Inr (Failure ''Token expired'' ''TOKEN_EXPIRED'')"
  using assms by (simp add: validate_lookup_def)

lemma check_rate_limit_error:
  "fst (check_rate_limit i a n w now tbl) = Inl e \<Longrightarrow> e = Rate_limit_exceeded a i"
  by (auto simp: check_rate_limit_def split: option.splits if_splits)

text \<open>
  Claim C1 (amended).  Let a validation record be stored for a token and its type, with an
  expiry that has passed at time \<open>now\<close>.  After any sequence of earlier validation calls
  (for any tokens, at any times), a call of \<^verbatim>\<open>validate_url_token\<close> with that token and
  type at \<open>now\<close> returns the failure with code \<^verbatim>\<open>TOKEN_EXPIRED\<close>, unless a client
  address is supplied and the rate limiter rejects the call, in which case the call raises
  the rate limiter's exception.  It never returns success.
\<close>

theorem expired_token_never_validates:
  assumes "find (uv_key tok ty) (url_validations db) = Some r"
    and "uv_expires_at r < now"
  shows "fst (validate_url_token tok ty ip ua now (validate_all cs db)) =
           Inr (Failure ''Token expired'' ''TOKEN_EXPIRED'')
         \<or> (\<exists>i. ip = Some i \<and>
               fst (check_rate_limit i ''url_validation'' 10 minute now
                      (rate_limits (validate_all cs db))) =
                 Inl (Rate_limit_exceeded ''url_validation'' i) \<and>
               fst (validate_url_token tok ty ip ua now (validate_all cs db)) =
                 Inl (Rate_limit_exceeded ''url_validation'' i))"
proof -
  let ?db = "validate_all cs db"
  from assms validate_all_expiry[of tok ty cs db]
  obtain r' where r': "find (uv_key tok ty) (url_validations ?db) = Some r'"
    and e: "uv_expires_at r' < now"
    by (cases "find (uv_key tok ty) (url_validations ?db)") auto
  have look: "fst (validate_lookup tok ty ip ua now (?db\<lparr>rate_limits := rl\<rparr>)) =
      Inr (Failure ''Token expired'' ''TOKEN_EXPIRED'')" for rl
    using validate_lookup_expired[of tok ty "?db\<lparr>rate_limits := rl\<rparr>" r' now ip ua] r' e
    by simp
  show ?thesis
  proof (cases ip)
    case None
    then show ?thesis
      using look[of "rate_limits ?db"]
      by (simp add: validate_url_token_def)
  next
    case (Some i)
    show ?thesis
    proof (cases "fst (check_rate_limit i ''url_validation'' 10 minute now (rate_limits ?db))")
      case (Inl err)
      then have "err = Rate_limit_exceeded ''url_validation'' i"
        by (rule check_rate_limit_error)
      with Inl Some show ?thesis
        by (simp add: validate_url_token_def Let_def)
    next
      case (Inr b)
      then show ?thesis
        using Some look[of "snd (check_rate_limit i ''url_validation'' 10 minute now (rate_limits ?db))"]
        by (simp add: validate_url_token_def Let_def)
    qed
  qed
qed

text \<open>The theorem for the stored token \<^verbatim>\<open>a3f1\<close>, expired at 100 and validated at 200.\<close>

theorem expired_token_never_validates_witness:
  "fst (validate_url_token ''a3f1'' ''submission'' None None 200
          (validate_all [ex_call] ex_expired_db)) =
     Inr (Failure ''Token expired'' ''TOKEN_EXPIRED'')"
  using expired_token_never_validates[of "''a3f1''" "''submission''" ex_expired_db
      "hd (url_validations ex_expired_db)" 200 None None "[ex_call]"]
  by (simp add: ex_expired_db_def uv_key_def)

text \<open>
  Claim C1 as stated fails once the caller's address has used up its ten calls of the
  minute: the eleventh validation of the expired token raises the rate limiter's exception
  instead of returning \<^verbatim>\<open>TOKEN_EXPIRED\<close>.
\<close>

theorem expired_token_rate_limited_counterexample:
  "map_option uv_expires_at
     (find (uv_key ''a3f1'' ''submission'') (url_validations ex_expired_db)) = Some 100
   \<and> fst (validate_url_token ''a3f1'' ''submission'' (Some ''10.0.0.1'') None 200
          (validate_all (replicate 10 ex_call) ex_expired_db)) =
       Inl (Rate_limit_exceeded ''url_validation'' ''10.0.0.1'')"
  by (simp add: ex_expired_db_def ex_call_def validate_url_token_def validate_lookup_def
        check_rate_limit_def rollback_to_def uv_key_def rl_key_def Let_def minute_def
        eval_nat_numeral)

subsection \<open>Issuing a token and validating it\<close>

lemma validate_lookup_success:
  assumes "find (uv_key tok ty) (url_validations db) = Some r"
    and "uv_is_valid r" and "\<not> uv_expires_at r < now" and "uv_validation_count r < int4_max"
  shows "fst (validate_lookup tok ty ip ua now db) =
           Inr (Success (uv_user_id r) ty (uv_validation_count r + 1))"
    and "map_option uv_validation_count
           (find (uv_key tok ty) (url_validations (snd (validate_lookup tok ty ip ua now db)))) =
         Some (uv_validation_count r + 1)"
  using assms
  by (simp_all add: validate_lookup_def find_update_first_same uv_key_def)

lemma validate_url_token_success:
  assumes "find (uv_key tok ty) (url_validations db) = Some r"
    and "uv_is_valid r" and "\<not> uv_expires_at r < now" and "uv_validation_count r < int4_max"
    and "rate_admits ip now db"
  shows "fst (validate_url_token tok ty ip ua now db) =
           Inr (Success (uv_user_id r) ty (uv_validation_count r + 1))"
    and "map_option uv_validation_count
           (find (uv_key tok ty) (url_validations (snd (validate_url_token tok ty ip ua now db)))) =
         Some (uv_validation_count r + 1)"
proof -
  have look: "fst (validate_lookup tok ty ip ua now (db\<lparr>rate_limits := rl\<rparr>)) =
           Inr (Success (uv_user_id r) ty (uv_validation_count r + 1))
     \<and> map_option uv_validation_count
           (find (uv_key tok ty)
              (url_validations (snd (validate_lookup tok ty ip ua now (db\<lparr>rate_limits := rl\<rparr>))))) =
         Some (uv_validation_count r + 1)" for rl
    using validate_lookup_success[of tok ty "db\<lparr>rate_limits := rl\<rparr>" r now ip ua] assms(1-4)
    by simp
  show "fst (validate_url_token tok ty ip ua now db) =
           Inr (Success (uv_user_id r) ty (uv_validation_count r + 1))"
  proof (cases ip)
    case None
    then show ?thesis using look[of "rate_limits db"] by (simp add: validate_url_token_def)
  next
    case (Some i)
    then show ?thesis
      using look[of "snd (check_rate_limit i ''url_validation'' 10 minute now (rate_limits db))"]
        assms(5)
      by (simp add: validate_url_token_def rate_admits_def Let_def)
  qed
  show "map_option uv_validation_count
           (find (uv_key tok ty) (url_validations (snd (validate_url_token tok ty ip ua now db)))) =
         Some (uv_validation_count r + 1)"
  proof (cases ip)
    case None
    then show ?thesis
      using look[of "rate_limits db"] by (simp add: validate_url_token_def snd_rollback_to)
  next
    case (Some i)
    then show ?thesis
      using look[of "snd (check_rate_limit i ''url_validation'' 10 minute now (rate_limits db))"]
        assms(5)
      by (simp add: validate_url_token_def rate_admits_def Let_def snd_rollback_to)
  qed
qed

lemma create_submission_token_record:
  assumes "find (\<lambda>t. st_id t = tid) (teachers db) = Some teacher"
    and "\<forall>t \<in> set (teachers db). st_id t \<noteq> tid \<longrightarrow> st_submission_token t \<noteq> token"
    and "find (uv_key token ''submission'') (url_validations db) = None"
  shows "fst (create_submission_token tid e token t0 db) = Inr token"
    and "find (uv_key token ''submission'')
           (url_validations (snd (create_submission_token tid e token t0 db))) =
         Some \<lparr>uv_token = token, uv_token_type = ''submission'',
                uv_user_id = st_profile_id teacher, uv_ip_address = None,
                uv_user_agent = None, uv_is_valid = True, uv_validation_count = 0,
                uv_last_validated_at = t0, uv_expires_at = t0 + e\<rparr>"
    and "rate_limits (snd (create_submission_token tid e token t0 db)) = rate_limits db"
  using assms
  by (auto simp add: create_submission_token_def Let_def find_snoc uv_key_def)

text \<open>
  Claim C7 (amended).  Let \<^verbatim>\<open>create_submission_token\<close> issue a token, not stored before,
  for an existing teacher at time \<open>t0\<close> with the default expiry of seven days.  The call
  returns the token and stores a validation record with counter 0.  A validation of the
  token with type \<^verbatim>\<open>submission\<close> at any time \<open>now\<close> not after the expiry, which the rate
  limiter admits, returns success with the teacher's profile reference as the owning user
  and with validation count 1, and the stored counter is 1 afterwards.
\<close>

theorem first_validation_counts_one:
  assumes "find (\<lambda>t. st_id t = tid) (teachers db) = Some teacher"
    and "\<forall>t \<in> set (teachers db). st_id t \<noteq> tid \<longrightarrow> st_submission_token t \<noteq> token"
    and "find (uv_key token ''submission'') (url_validations db) = None"
    and "now \<le> t0 + default_expires_in"
    and "rate_admits ip now db"
  shows "fst (create_submission_token tid default_expires_in token t0 db) = Inr token
       \<and> map_option uv_validation_count
           (find (uv_key token ''submission'')
              (url_validations (snd (create_submission_token tid default_expires_in token t0 db)))) =
         Some 0
       \<and> fst (validate_url_token token ''submission'' ip ua now
                (snd (create_submission_token tid default_expires_in token t0 db))) =
           Inr (Success (st_profile_id teacher) ''submission'' 1)
       \<and> map_option uv_validation_count
           (find (uv_key token ''submission'')
              (url_validations
                 (snd (validate_url_token token ''submission'' ip ua now
                         (snd (create_submission_token tid default_expires_in token t0 db)))))) =
         Some 1"
proof -
  let ?db1 = "snd (create_submission_token tid default_expires_in token t0 db)"
  let ?r = "\<lparr>uv_token = token, uv_token_type = ''submission'',
                uv_user_id = st_profile_id teacher, uv_ip_address = None,
                uv_user_agent = None, uv_is_valid = True, uv_validation_count = 0,
                uv_last_validated_at = t0, uv_expires_at = t0 + default_expires_in\<rparr>"
  have issued: "fst (create_submission_token tid default_expires_in token t0 db) = Inr token"
    and r: "find (uv_key token ''submission'') (url_validations ?db1) = Some ?r"
    and rl: "rate_limits ?db1 = rate_limits db"
    using create_submission_token_record[OF assms(1-3)] by auto
  have adm: "rate_admits ip now ?db1"
    using assms(5) rl by (simp add: rate_admits_def split: option.splits)
  have "fst (validate_url_token token ''submission'' ip ua now ?db1) =
           Inr (Success (uv_user_id ?r) ''submission'' (uv_validation_count ?r + 1))"
    and "map_option uv_validation_count
           (find (uv_key token ''submission'')
              (url_validations (snd (validate_url_token token ''submission'' ip ua now ?db1)))) =
         Some (uv_validation_count ?r + 1)"
    using assms(4) adm by (intro validate_url_token_success[OF r]; simp add: int4_max_def)+
  then show ?thesis using issued r by simp
qed

text \<open>The theorem for teacher 1, token \<^verbatim>\<open>b7c2\<close> issued and validated at time 210.\<close>

theorem first_validation_counts_one_witness:
  "fst (create_submission_token 1 default_expires_in ''b7c2'' 210 ex_teacher_db) = Inr ''b7c2''
   \<and> map_option uv_validation_count
       (find (uv_key ''b7c2'' ''submission'')
          (url_validations (snd (create_submission_token 1 default_expires_in ''b7c2'' 210 ex_teacher_db)))) =
       Some 0
   \<and> fst (validate_url_token ''b7c2'' ''submission'' (Some ''10.0.0.1'') None 210
            (snd (create_submission_token 1 default_expires_in ''b7c2'' 210 ex_teacher_db))) =
       Inr (Success (st_profile_id (hd (teachers ex_teacher_db))) ''submission'' 1)
   \<and> map_option uv_validation_count
       (find (uv_key ''b7c2'' ''submission'')
          (url_validations
             (snd (validate_url_token ''b7c2'' ''submission'' (Some ''10.0.0.1'') None 210
                     (snd (create_submission_token 1 default_expires_in ''b7c2'' 210 ex_teacher_db)))))) =
       Some 1"
  by (rule first_validation_counts_one)
     (simp_all add: ex_teacher_db_def uv_key_def default_expires_in_def day_def rate_admits_def
        check_rate_limit_def)

text \<open>
  Claim C7 as stated fails for a caller whose address has used up its ten calls of the
  minute: the token is issued, and its first validation raises the rate limiter's exception.
\<close>

theorem first_validation_rate_limited_counterexample:
  "fst (create_submission_token 1 default_expires_in ''b7c2'' 210
          (validate_all (replicate 10 ex_call) ex_teacher_db)) = Inr ''b7c2''
   \<and> fst (validate_url_token ''b7c2'' ''submission'' (Some ''10.0.0.1'') None 210
            (snd (create_submission_token 1 default_expires_in ''b7c2'' 210
                    (validate_all (replicate 10 ex_call) ex_teacher_db)))) =
       Inl (Rate_limit_exceeded ''url_validation'' ''10.0.0.1'')"
  by (simp add: ex_teacher_db_def ex_call_def validate_url_token_def validate_lookup_def
        create_submission_token_def check_rate_limit_def rollback_to_def uv_key_def rl_key_def
        Let_def minute_def eval_nat_numeral)

section \<open>The rate limiters\<close>

lemma check_rate_limit_fresh:
  assumes "find (rl_key i a) tbl = None"
  shows "fst (check_rate_limit i a n w t tbl) = Inr True"
    and "find (rl_key i a) (snd (check_rate_limit i a n w t tbl)) =
           Some \<lparr>rl_identifier = i, rl_action = a, rl_count = 1, rl_window_start = t,
                 rl_blocked_until = None, rl_updated_at = t\<rparr>"
  using assms by (simp_all add: check_rate_limit_def find_snoc rl_key_def)

lemma check_rate_limit_in_window:
  assumes "find (rl_key i a) tbl = Some r" and "t < rl_window_start r + w" and "rl_count r < n"
  shows "fst (check_rate_limit i a n w t tbl) = Inr True"
    and "find (rl_key i a) (snd (check_rate_limit i a n w t tbl)) =
           Some (r\<lparr>rl_count := rl_count r + 1, rl_updated_at := t\<rparr>)"
  using assms by (simp_all add: check_rate_limit_def find_update_first_same rl_key_def)

lemma check_rate_limit_exhausted:
  assumes "find (rl_key i a) tbl = Some r" and "t < rl_window_start r + w" and "n \<le> rl_count r"
  shows "check_rate_limit i a n w t tbl = (Inl (Rate_limit_exceeded a i), tbl)"
  using assms by (simp add: check_rate_limit_def)

lemma check_rate_limit_new_window:
  assumes "find (rl_key i a) tbl = Some r" and "rl_window_start r + w \<le> t"
  shows "fst (check_rate_limit i a n w t tbl) = Inr True"
    and "find (rl_key i a) (snd (check_rate_limit i a n w t tbl)) =
           Some (r\<lparr>rl_count := 1, rl_window_start := t, rl_blocked_until := None,
                   rl_updated_at := t\<rparr>)"
  using assms by (simp_all add: check_rate_limit_def find_update_first_same rl_key_def)

lemma check_all_in_window:
  assumes "find (rl_key i a) tbl = Some r"
    and "\<forall>t \<in> set ts. t < rl_window_start r + w"
    and "rl_count r + int (length ts) \<le> n"
  shows "fst (check_all (same_key_attempts i a n w ts) tbl) = replicate (length ts) (Inr True)
       \<and> (\<exists>r'. find (rl_key i a) (snd (check_all (same_key_attempts i a n w ts) tbl)) = Some r'
             \<and> rl_count r' = rl_count r + int (length ts)
             \<and> rl_window_start r' = rl_window_start r)"
  using assms
proof (induction ts arbitrary: tbl r)
  case Nil
  then show ?case by (simp add: same_key_attempts_def)
next
  case (Cons t ts)
  let ?tbl = "snd (check_rate_limit i a n w t tbl)"
  let ?r = "r\<lparr>rl_count := rl_count r + 1, rl_updated_at := t\<rparr>"
  from Cons.prems have t: "t < rl_window_start r + w" and c: "rl_count r < n" by auto
  have ok: "fst (check_rate_limit i a n w t tbl) = Inr True"
    and f: "find (rl_key i a) ?tbl = Some ?r"
    using check_rate_limit_in_window[OF Cons.prems(1) t c] by auto
  have "fst (check_all (same_key_attempts i a n w ts) ?tbl) = replicate (length ts) (Inr True)
       \<and> (\<exists>r'. find (rl_key i a) (snd (check_all (same_key_attempts i a n w ts) ?tbl)) = Some r'
             \<and> rl_count r' = rl_count ?r + int (length ts)
             \<and> rl_window_start r' = rl_window_start ?r)"
    using Cons.prems by (intro Cons.IH[OF f]) auto
  then obtain r' where
      "fst (check_all (same_key_attempts i a n w ts) ?tbl) = replicate (length ts) (Inr True)"
      "find (rl_key i a) (snd (check_all (same_key_attempts i a n w ts) ?tbl)) = Some r'"
      "rl_count r' = rl_count r + int (length (t # ts))"
      "rl_window_start r' = rl_window_start r"
    by auto
  then show ?case
    using ok by (simp add: same_key_attempts_def Let_def)
qed

lemma sql_window_limit:
  assumes fresh: "find (rl_key i a) tbl = None"
    and N: "1 \<le> N" and len: "int (length ts) = N - 1"
    and inw: "\<forall>t \<in> set ts. t < t0 + W"
    and t1: "t1 < t0 + W" and t2: "t0 + W < t2"
  shows "fst (check_all (same_key_attempts i a N W (t0 # ts)) tbl) = replicate (nat N) (Inr True)
       \<and> check_rate_limit i a N W t1 (snd (check_all (same_key_attempts i a N W (t0 # ts)) tbl)) =
           (Inl (Rate_limit_exceeded a i), snd (check_all (same_key_attempts i a N W (t0 # ts)) tbl))
       \<and> fst (check_rate_limit i a N W t2 (snd (check_all (same_key_attempts i a N W (t0 # ts)) tbl))) =
           Inr True
       \<and> map_option rl_count (find (rl_key i a)
           (snd (check_rate_limit i a N W t2
                  (snd (check_all (same_key_attempts i a N W (t0 # ts)) tbl))))) = Some 1"
proof -
  let ?tbl0 = "snd (check_rate_limit i a N W t0 tbl)"
  let ?r0 = "\<lparr>rl_identifier = i, rl_action = a, rl_count = 1, rl_window_start = t0,
              rl_blocked_until = None, rl_updated_at = t0\<rparr>"
  let ?tblN = "snd (check_all (same_key_attempts i a N W (t0 # ts)) tbl)"
  have first: "fst (check_rate_limit i a N W t0 tbl) = Inr True"
    and f0: "find (rl_key i a) ?tbl0 = Some ?r0"
    using check_rate_limit_fresh[OF fresh] by auto
  have run: "fst (check_all (same_key_attempts i a N W ts) ?tbl0) = replicate (length ts) (Inr True)
       \<and> (\<exists>r'. find (rl_key i a) (snd (check_all (same_key_attempts i a N W ts) ?tbl0)) = Some r'
             \<and> rl_count r' = rl_count ?r0 + int (length ts)
             \<and> rl_window_start r' = rl_window_start ?r0)"
    using inw len by (intro check_all_in_window[OF f0]) auto
  have tblN: "?tblN = snd (check_all (same_key_attempts i a N W ts) ?tbl0)"
    by (simp add: same_key_attempts_def Let_def)
  from run tblN obtain r' where r': "find (rl_key i a) ?tblN = Some r'"
    and cnt: "rl_count r' = N" and ws: "rl_window_start r' = t0"
    using len by auto
  have outs: "fst (check_all (same_key_attempts i a N W (t0 # ts)) tbl) = replicate (nat N) (Inr True)"
  proof -
    have "nat N = Suc (length ts)" using len N by linarith
    then show ?thesis using run first by (simp add: same_key_attempts_def Let_def)
  qed
  have rej: "check_rate_limit i a N W t1 ?tblN = (Inl (Rate_limit_exceeded a i), ?tblN)"
    using check_rate_limit_exhausted[OF r', of t1 W N] t1 cnt ws by simp
  have new: "fst (check_rate_limit i a N W t2 ?tblN) = Inr True"
    and newc: "find (rl_key i a) (snd (check_rate_limit i a N W t2 ?tblN)) =
           Some (r'\<lparr>rl_count := 1, rl_window_start := t2, rl_blocked_until := None,
                   rl_updated_at := t2\<rparr>)"
    using check_rate_limit_new_window[OF r', of W t2 N] t2 ws by auto
  show ?thesis using outs rej new newc by simp
qed

lemma rateLimiter_fresh:
  assumes "attempts (req_ip q @ req_path q) = None"
  shows "fst (rateLimiter n w attempts q t) = Next"
    and "snd (rateLimiter n w attempts q t) (req_ip q @ req_path q) =
           Some \<lparr>count = 1, resetTime = t + w\<rparr>"
  using assms by (simp_all add: rateLimiter_def)

lemma rateLimiter_in_window:
  assumes "attempts (req_ip q @ req_path q) = Some r" and "t \<le> resetTime r" and "count r < n"
  shows "fst (rateLimiter n w attempts q t) = Next"
    and "snd (rateLimiter n w attempts q t) (req_ip q @ req_path q) =
           Some (r\<lparr>count := count r + 1\<rparr>)"
  using assms by (simp_all add: rateLimiter_def)

lemma rateLimiter_exhausted:
  assumes "attempts (req_ip q @ req_path q) = Some r" and "t \<le> resetTime r" and "n \<le> count r"
  shows "rateLimiter n w attempts q t = (Too_many_429 (- ((t - resetTime r) div 1000)), attempts)"
  using assms by (simp add: rateLimiter_def)

lemma rateLimiter_new_window:
  assumes "attempts (req_ip q @ req_path q) = Some r" and "resetTime r < t"
  shows "fst (rateLimiter n w attempts q t) = Next"
    and "snd (rateLimiter n w attempts q t) (req_ip q @ req_path q) =
           Some \<lparr>count = 1, resetTime = t + w\<rparr>"
  using assms by (simp_all add: rateLimiter_def)

lemma limit_all_in_window:
  assumes "attempts (req_ip q @ req_path q) = Some r"
    and "\<forall>t \<in> set ts. t \<le> resetTime r"
    and "count r + int (length ts) \<le> n"
  shows "fst (limit_all n w (map (Pair q) ts) attempts) = replicate (length ts) Next
       \<and> (\<exists>r'. snd (limit_all n w (map (Pair q) ts) attempts) (req_ip q @ req_path q) = Some r'
             \<and> count r' = count r + int (length ts)
             \<and> resetTime r' = resetTime r)"
  using assms
proof (induction ts arbitrary: attempts r)
  case Nil
  then show ?case by simp
next
  case (Cons t ts)
  let ?m = "snd (rateLimiter n w attempts q t)"
  let ?r = "r\<lparr>count := count r + 1\<rparr>"
  from Cons.prems have t: "t \<le> resetTime r" and c: "count r < n" by auto
  have ok: "fst (rateLimiter n w attempts q t) = Next"
    and f: "?m (req_ip q @ req_path q) = Some ?r"
    using rateLimiter_in_window[where attempts=attempts and q=q and r=r and t=t and n=n and w=w] Cons.prems(1) t c by auto
  have "fst (limit_all n w (map (Pair q) ts) ?m) = replicate (length ts) Next
       \<and> (\<exists>r'. snd (limit_all n w (map (Pair q) ts) ?m) (req_ip q @ req_path q) = Some r'
             \<and> count r' = count ?r + int (length ts)
             \<and> resetTime r' = resetTime ?r)"
    using Cons.prems f by (intro Cons.IH[where r="?r"]) auto
  then obtain r' where
      "fst (limit_all n w (map (Pair q) ts) ?m) = replicate (length ts) Next"
      "snd (limit_all n w (map (Pair q) ts) ?m) (req_ip q @ req_path q) = Some r'"
      "count r' = count ?r + int (length ts)"
      "resetTime r' = resetTime ?r"
    by blast
  then show ?case
    using ok by (auto simp add: Let_def)
qed

lemma js_window_limit:
  assumes fresh: "attempts (req_ip q @ req_path q) = None"
    and N: "1 \<le> N" and len: "int (length ts) = N - 1"
    and inw: "\<forall>t \<in> set ts. t < t0 + W"
    and t1: "t1 < t0 + W" and t2: "t0 + W < t2"
  shows "fst (limit_all N W (map (Pair q) (t0 # ts)) attempts) = replicate (nat N) Next
       \<and> rateLimiter N W (snd (limit_all N W (map (Pair q) (t0 # ts)) attempts)) q t1 =
           (Too_many_429 (- ((t1 - (t0 + W)) div 1000)),
            snd (limit_all N W (map (Pair q) (t0 # ts)) attempts))
       \<and> fst (rateLimiter N W (snd (limit_all N W (map (Pair q) (t0 # ts)) attempts)) q t2) = Next
       \<and> map_option count
           (snd (rateLimiter N W (snd (limit_all N W (map (Pair q) (t0 # ts)) attempts)) q t2)
              (req_ip q @ req_path q)) = Some 1"
proof -
  let ?m0 = "snd (rateLimiter N W attempts q t0)"
  let ?r0 = "\<lparr>count = 1, resetTime = t0 + W\<rparr>"
  let ?mN = "snd (limit_all N W (map (Pair q) (t0 # ts)) attempts)"
  have first: "fst (rateLimiter N W attempts q t0) = Next"
    and f0: "?m0 (req_ip q @ req_path q) = Some ?r0"
    using rateLimiter_fresh[where attempts=attempts and q=q and n=N and w=W and t=t0] fresh by auto
  have run: "fst (limit_all N W (map (Pair q) ts) ?m0) = replicate (length ts) Next
       \<and> (\<exists>r'. snd (limit_all N W (map (Pair q) ts) ?m0) (req_ip q @ req_path q) = Some r'
             \<and> count r' = count ?r0 + int (length ts)
             \<and> resetTime r' = resetTime ?r0)"
    using inw len f0 by (intro limit_all_in_window[where r="?r0"]) auto
  have mN: "?mN = snd (limit_all N W (map (Pair q) ts) ?m0)"
    by (simp add: Let_def)
  from run mN obtain r' where r': "?mN (req_ip q @ req_path q) = Some r'"
    and cnt: "count r' = N" and rt: "resetTime r' = t0 + W"
    using len by auto
  have outs: "fst (limit_all N W (map (Pair q) (t0 # ts)) attempts) = replicate (nat N) Next"
  proof -
    have "nat N = Suc (length ts)" using len N by linarith
    then show ?thesis using run first by (simp add: Let_def)
  qed
  have rej: "rateLimiter N W ?mN q t1 = (Too_many_429 (- ((t1 - (t0 + W)) div 1000)), ?mN)"
    using rateLimiter_exhausted[where attempts="?mN" and q=q and r=r' and t=t1 and n=N and w=W] r' t1 cnt rt by simp
  have new: "fst (rateLimiter N W ?mN q t2) = Next"
    and newc: "snd (rateLimiter N W ?mN q t2) (req_ip q @ req_path q) =
           Some \<lparr>count = 1, resetTime = t2 + W\<rparr>"
    using rateLimiter_new_window[where attempts="?mN" and q=q and r=r' and t=t2 and n=N and w=W] r' t2 rt by auto
  show ?thesis using outs rej new newc by simp
qed

subsection \<open>The window of the rate limiters\<close>

text \<open>
  Claim C4 (amended).  For a key with no stored record, a bound \<open>N \<ge> 1\<close> and a window
  \<open>W\<close>: the first attempt at time \<open>t0\<close> and the \<open>N - 1\<close> further attempts made before
  \<open>t0 + W\<close> are all allowed; the next attempt before \<open>t0 + W\<close> is rejected and leaves the
  stored state as it was; an attempt made after \<open>t0 + W\<close> is allowed and stores the count 1.
  The first conjunct is the stored procedure \<^verbatim>\<open>check_rate_limit\<close>, the second the
  \<^verbatim>\<open>rateLimiter\<close> middleware.
\<close>


theorem rate_limit_window:
  assumes "1 \<le> N" and "int (length ts) = N - 1"
    and "\<forall>t \<in> set ts. t < t0 + W"
    and "t1 < t0 + W" and "t0 + W < t2"
  shows "(find (rl_key i a) tbl = None \<longrightarrow>
        fst (check_all (same_key_attempts i a N W (t0 # ts)) tbl) = replicate (nat N) (Inr True)
       \<and> check_rate_limit i a N W t1 (snd (check_all (same_key_attempts i a N W (t0 # ts)) tbl)) =
           (Inl (Rate_limit_exceeded a i), snd (check_all (same_key_attempts i a N W (t0 # ts)) tbl))
       \<and> fst (check_rate_limit i a N W t2 (snd (check_all (same_key_attempts i a N W (t0 # ts)) tbl))) =
           Inr True
       \<and> map_option rl_count (find (rl_key i a)
           (snd (check_rate_limit i a N W t2
                  (snd (check_all (same_key_attempts i a N W (t0 # ts)) tbl))))) = Some 1)
    \<and> (attempts (req_ip q @ req_path q) = None \<longrightarrow>
        fst (limit_all N W (map (Pair q) (t0 # ts)) attempts) = replicate (nat N) Next
       \<and> rateLimiter N W (snd (limit_all N W (map (Pair q) (t0 # ts)) attempts)) q t1 =
           (Too_many_429 (- ((t1 - (t0 + W)) div 1000)),
            snd (limit_all N W (map (Pair q) (t0 # ts)) attempts))
       \<and> fst (rateLimiter N W (snd (limit_all N W (map (Pair q) (t0 # ts)) attempts)) q t2) = Next
       \<and> map_option count
           (snd (rateLimiter N W (snd (limit_all N W (map (Pair q) (t0 # ts)) attempts)) q t2)
              (req_ip q @ req_path q)) = Some 1)"
proof (rule conjI; rule impI)
  assume "find (rl_key i a) tbl = None"
  then show "fst (check_all (same_key_attempts i a N W (t0 # ts)) tbl) = replicate (nat N) (Inr True)
       \<and> check_rate_limit i a N W t1 (snd (check_all (same_key_attempts i a N W (t0 # ts)) tbl)) =
           (Inl (Rate_limit_exceeded a i), snd (check_all (same_key_attempts i a N W (t0 # ts)) tbl))
       \<and> fst (check_rate_limit i a N W t2 (snd (check_all (same_key_attempts i a N W (t0 # ts)) tbl))) =
           Inr True
       \<and> map_option rl_count (find (rl_key i a)
           (snd (check_rate_limit i a N W t2
                  (snd (check_all (same_key_attempts i a N W (t0 # ts)) tbl))))) = Some 1"
    using assms by (rule sql_window_limit)
next
  assume "attempts (req_ip q @ req_path q) = None"
  then show "fst (limit_all N W (map (Pair q) (t0 # ts)) attempts) = replicate (nat N) Next
       \<and> rateLimiter N W (snd (limit_all N W (map (Pair q) (t0 # ts)) attempts)) q t1 =
           (Too_many_429 (- ((t1 - (t0 + W)) div 1000)),
            snd (limit_all N W (map (Pair q) (t0 # ts)) attempts))
       \<and> fst (rateLimiter N W (snd (limit_all N W (map (Pair q) (t0 # ts)) attempts)) q t2) = Next
       \<and> map_option count
           (snd (rateLimiter N W (snd (limit_all N W (map (Pair q) (t0 # ts)) attempts)) q t2)
              (req_ip q @ req_path q)) = Some 1"
    using assms by (rule js_window_limit[where attempts=attempts and q=q])
qed

text \<open>The theorem at \<open>N = 2\<close>, \<open>W = 900\<close>, with attempts at times 0, 10, 20 and 901.\<close>

theorem rate_limit_window_witness:
  "(fst (check_all (same_key_attempts ''10.0.0.1'' ''login'' 2 900 [0, 10]) []) =
      replicate (nat 2) (Inr True)
   \<and> check_rate_limit ''10.0.0.1'' ''login'' 2 900 20
        (snd (check_all (same_key_attempts ''10.0.0.1'' ''login'' 2 900 [0, 10]) [])) =
      (Inl (Rate_limit_exceeded ''login'' ''10.0.0.1''),
       snd (check_all (same_key_attempts ''10.0.0.1'' ''login'' 2 900 [0, 10]) []))
   \<and> fst (check_rate_limit ''10.0.0.1'' ''login'' 2 900 901
        (snd (check_all (same_key_attempts ''10.0.0.1'' ''login'' 2 900 [0, 10]) []))) = Inr True
   \<and> map_option rl_count (find (rl_key ''10.0.0.1'' ''login'')
        (snd (check_rate_limit ''10.0.0.1'' ''login'' 2 900 901
           (snd (check_all (same_key_attempts ''10.0.0.1'' ''login'' 2 900 [0, 10]) []))))) = Some 1)
 \<and> (fst (limit_all 2 900 (map (Pair \<lparr>req_ip = ''10.0.0.1'', req_path = ''/login''\<rparr>) [0, 10])
          Map.empty) = replicate (nat 2) Next
   \<and> rateLimiter 2 900
        (snd (limit_all 2 900 (map (Pair \<lparr>req_ip = ''10.0.0.1'', req_path = ''/login''\<rparr>) [0, 10])
          Map.empty)) \<lparr>req_ip = ''10.0.0.1'', req_path = ''/login''\<rparr> 20 =
      (Too_many_429 (- ((20 - (0 + 900)) div 1000)),
       snd (limit_all 2 900 (map (Pair \<lparr>req_ip = ''10.0.0.1'', req_path = ''/login''\<rparr>) [0, 10])
          Map.empty))
   \<and> fst (rateLimiter 2 900
        (snd (limit_all 2 900 (map (Pair \<lparr>req_ip = ''10.0.0.1'', req_path = ''/login''\<rparr>) [0, 10])
          Map.empty)) \<lparr>req_ip = ''10.0.0.1'', req_path = ''/login''\<rparr> 901) = Next
   \<and> map_option count
        (snd (rateLimiter 2 900
           (snd (limit_all 2 900 (map (Pair \<lparr>req_ip = ''10.0.0.1'', req_path = ''/login''\<rparr>) [0, 10])
              Map.empty)) \<lparr>req_ip = ''10.0.0.1'', req_path = ''/login''\<rparr> 901)
           (req_ip \<lparr>req_ip = ''10.0.0.1'', req_path = ''/login''\<rparr> @
            req_path \<lparr>req_ip = ''10.0.0.1'', req_path = ''/login''\<rparr>)) = Some 1)"
proof
  show "fst (check_all (same_key_attempts ''10.0.0.1'' ''login'' 2 900 [0, 10]) []) =
      replicate (nat 2) (Inr True)
   \<and> check_rate_limit ''10.0.0.1'' ''login'' 2 900 20
        (snd (check_all (same_key_attempts ''10.0.0.1'' ''login'' 2 900 [0, 10]) [])) =
      (Inl (Rate_limit_exceeded ''login'' ''10.0.0.1''),
       snd (check_all (same_key_attempts ''10.0.0.1'' ''login'' 2 900 [0, 10]) []))
   \<and> fst (check_rate_limit ''10.0.0.1'' ''login'' 2 900 901
        (snd (check_all (same_key_attempts ''10.0.0.1'' ''login'' 2 900 [0, 10]) []))) = Inr True
   \<and> map_option rl_count (find (rl_key ''10.0.0.1'' ''login'')
        (snd (check_rate_limit ''10.0.0.1'' ''login'' 2 900 901
           (snd (check_all (same_key_attempts ''10.0.0.1'' ''login'' 2 900 [0, 10]) []))))) = Some 1"
    by (rule rate_limit_window[where N=2 and ts="[10]" and ?t0.0=0 and W=900 and ?t1.0=20
          and ?t2.0=901 and tbl="[]", THEN conjunct1, THEN mp]) simp_all
  show "fst (limit_all 2 900 (map (Pair \<lparr>req_ip = ''10.0.0.1'', req_path = ''/login''\<rparr>) [0, 10])
          Map.empty) = replicate (nat 2) Next
   \<and> rateLimiter 2 900
        (snd (limit_all 2 900 (map (Pair \<lparr>req_ip = ''10.0.0.1'', req_path = ''/login''\<rparr>) [0, 10])
          Map.empty)) \<lparr>req_ip = ''10.0.0.1'', req_path = ''/login''\<rparr> 20 =
      (Too_many_429 (- ((20 - (0 + 900)) div 1000)),
       snd (limit_all 2 900 (map (Pair \<lparr>req_ip = ''10.0.0.1'', req_path = ''/login''\<rparr>) [0, 10])
          Map.empty))
   \<and> fst (rateLimiter 2 900
        (snd (limit_all 2 900 (map (Pair \<lparr>req_ip = ''10.0.0.1'', req_path = ''/login''\<rparr>) [0, 10])
          Map.empty)) \<lparr>req_ip = ''10.0.0.1'', req_path = ''/login''\<rparr> 901) = Next
   \<and> map_option count
        (snd (rateLimiter 2 900
           (snd (limit_all 2 900 (map (Pair \<lparr>req_ip = ''10.0.0.1'', req_path = ''/login''\<rparr>) [0, 10])
              Map.empty)) \<lparr>req_ip = ''10.0.0.1'', req_path = ''/login''\<rparr> 901)
           (req_ip \<lparr>req_ip = ''10.0.0.1'', req_path = ''/login''\<rparr> @
            req_path \<lparr>req_ip = ''10.0.0.1'', req_path = ''/login''\<rparr>)) = Some 1"
    by (rule rate_limit_window[where N=2 and ts="[10]" and ?t0.0=0 and W=900 and ?t1.0=20
          and ?t2.0=901 and attempts=Map.empty
          and q="\<lparr>req_ip = ''10.0.0.1'', req_path = ''/login''\<rparr>", THEN conjunct2, THEN mp])
       simp_all
qed

text \<open>
  Claim C4 as stated also covers \<open>N = 0\<close>, where the first attempt would have to be
  rejected.  Both implementations admit the first attempt of a key unconditionally.
\<close>

theorem rate_limit_zero_counterexample:
  "fst (check_rate_limit ''10.0.0.1'' ''login'' 0 900 0 []) = Inr True
   \<and> fst (rateLimiter 0 900 Map.empty \<lparr>req_ip = ''10.0.0.1'', req_path = ''/login''\<rparr> 0) = Next"
  by (simp add: check_rate_limit_def rateLimiter_def)

subsection \<open>Isolation of rate-limit keys\<close>

lemma check_rate_limit_other_key:
  assumes "\<not> (i = i' \<and> a = a')"
  shows "find (rl_key i a) (snd (check_rate_limit i' a' n w t tbl)) = find (rl_key i a) tbl"
proof -
  have d: "find (rl_key i a) (update_first (rl_key i' a') f tbl) = find (rl_key i a) tbl"
    if "\<And>x. rl_identifier (f x) = rl_identifier x \<and> rl_action (f x) = rl_action x" for f
    using assms that by (intro find_update_first_disjoint) (auto simp: rl_key_def)
  show ?thesis
    using assms
    by (auto simp: check_rate_limit_def find_snoc d rl_key_def split: option.splits)
qed

lemma check_rate_limit_same_key:
  assumes "find (rl_key i a) tbl1 = find (rl_key i a) tbl2"
  shows "fst (check_rate_limit i a n w t tbl1) = fst (check_rate_limit i a n w t tbl2)"
    and "find (rl_key i a) (snd (check_rate_limit i a n w t tbl1)) =
         find (rl_key i a) (snd (check_rate_limit i a n w t tbl2))"
  using assms
  by (auto simp: check_rate_limit_def find_snoc find_update_first_same rl_key_def
           split: option.splits)

lemma outcomes_for_Cons:
  "outcomes_for i a (x # xs) tbl =
     (let r = check_rate_limit (ra_identifier x) (ra_action x) (ra_max_attempts x)
                (ra_window_duration x) (ra_now x) tbl
      in (if ra_key i a x then [fst r] else []) @ outcomes_for i a xs (snd r))"
  by (simp add: outcomes_for_def Let_def)

lemma outcomes_for_projection:
  assumes "find (rl_key i a) tbl1 = find (rl_key i a) tbl2"
  shows "outcomes_for i a xs tbl1 = fst (check_all (filter (ra_key i a) xs) tbl2)"
  using assms
proof (induction xs arbitrary: tbl1 tbl2)
  case Nil
  then show ?case by (simp add: outcomes_for_def)
next
  case (Cons x xs)
  let ?c = "\<lambda>tbl. check_rate_limit (ra_identifier x) (ra_action x) (ra_max_attempts x)
                (ra_window_duration x) (ra_now x) tbl"
  show ?case
  proof (cases "ra_key i a x")
    case True
    then have k: "ra_identifier x = i" "ra_action x = a" by (auto simp: ra_key_def)
    have "fst (?c tbl1) = fst (?c tbl2)"
      and "find (rl_key i a) (snd (?c tbl1)) = find (rl_key i a) (snd (?c tbl2))"
      using check_rate_limit_same_key[OF Cons.prems] k by auto
    then show ?thesis
      using True Cons.IH[of "snd (?c tbl1)" "snd (?c tbl2)"]
      by (simp add: outcomes_for_Cons Let_def)
  next
    case False
    then have "find (rl_key i a) (snd (?c tbl1)) = find (rl_key i a) tbl2"
      using check_rate_limit_other_key[of i "ra_identifier x" a "ra_action x"] Cons.prems
      by (auto simp: ra_key_def)
    then show ?thesis
      using False Cons.IH[of "snd (?c tbl1)" tbl2]
      by (simp add: outcomes_for_Cons Let_def)
  qed
qed

lemma split_at_first:
  "c \<notin> set xs \<Longrightarrow>
   takeWhile (\<lambda>x. x \<noteq> c) (xs @ c # ys) = xs \<and> dropWhile (\<lambda>x. x \<noteq> c) (xs @ c # ys) = c # ys"
  by (induction xs) auto

lemma request_key_inj:
  assumes "wf_request p" and "wf_request q" and "req_ip p @ req_path p = req_ip q @ req_path q"
  shows "p = q"
proof -
  have tw: "takeWhile (\<lambda>c. c \<noteq> CHR ''/'') (req_ip r @ req_path r) = req_ip r
          \<and> dropWhile (\<lambda>c. c \<noteq> CHR ''/'') (req_ip r @ req_path r) = req_path r"
    if "wf_request r" for r
    using that
    by (cases "req_path r") (auto simp: wf_request_def split_at_first)
  have "req_ip p = takeWhile (\<lambda>c. c \<noteq> CHR ''/'') (req_ip p @ req_path p)"
    using tw[OF assms(1)] by simp
  also have "\<dots> = takeWhile (\<lambda>c. c \<noteq> CHR ''/'') (req_ip q @ req_path q)"
    by (simp only: assms(3))
  also have "\<dots> = req_ip q"
    using tw[OF assms(2)] by simp
  finally have ip: "req_ip p = req_ip q" .
  have "req_path p = dropWhile (\<lambda>c. c \<noteq> CHR ''/'') (req_ip p @ req_path p)"
    using tw[OF assms(1)] by simp
  also have "\<dots> = dropWhile (\<lambda>c. c \<noteq> CHR ''/'') (req_ip q @ req_path q)"
    by (simp only: assms(3))
  also have "\<dots> = req_path q"
    using tw[OF assms(2)] by simp
  finally have path: "req_path p = req_path q" .
  show ?thesis
    using ip path by (rule request.equality) simp
qed

lemma rateLimiter_other_key:
  assumes "req_ip q @ req_path q \<noteq> k"
  shows "snd (rateLimiter n w attempts q t) k = attempts k"
  using assms by (auto simp: rateLimiter_def Let_def split: option.splits)

lemma rateLimiter_same_key:
  assumes "m1 (req_ip q @ req_path q) = m2 (req_ip q @ req_path q)"
  shows "fst (rateLimiter n w m1 q t) = fst (rateLimiter n w m2 q t)"
    and "snd (rateLimiter n w m1 q t) (req_ip q @ req_path q) =
         snd (rateLimiter n w m2 q t) (req_ip q @ req_path q)"
  using assms by (auto simp: rateLimiter_def Let_def split: option.splits)

lemma limited_outcomes_for_Cons:
  "limited_outcomes_for k n w (x # xs) m =
     (let r = rateLimiter n w m (fst x) (snd x)
      in (if fst x = k then [fst r] else []) @ limited_outcomes_for k n w xs (snd r))"
  by (simp add: limited_outcomes_for_def Let_def)

lemma limited_outcomes_for_projection:
  assumes "m1 (req_ip k @ req_path k) = m2 (req_ip k @ req_path k)"
    and "wf_request k" and "\<forall>x \<in> set xs. wf_request (fst x)"
  shows "limited_outcomes_for k n w xs m1 = fst (limit_all n w (filter (\<lambda>x. fst x = k) xs) m2)"
  using assms
proof (induction xs arbitrary: m1 m2)
  case Nil
  then show ?case by (simp add: limited_outcomes_for_def)
next
  case (Cons x xs)
  let ?K = "req_ip k @ req_path k"
  show ?case
  proof (cases "fst x = k")
    case True
    have "fst (rateLimiter n w m1 k (snd x)) = fst (rateLimiter n w m2 k (snd x))"
      and "snd (rateLimiter n w m1 k (snd x)) ?K = snd (rateLimiter n w m2 k (snd x)) ?K"
      using rateLimiter_same_key[where q=k and ?m1.0=m1 and ?m2.0=m2] Cons.prems(1) by auto
    then show ?thesis
      using True Cons.prems
        Cons.IH[of "snd (rateLimiter n w m1 k (snd x))" "snd (rateLimiter n w m2 k (snd x))"]
      by (simp add: limited_outcomes_for_Cons Let_def)
  next
    case False
    then have "req_ip (fst x) @ req_path (fst x) \<noteq> ?K"
      using request_key_inj[of "fst x" k] Cons.prems by auto
    then have "snd (rateLimiter n w m1 (fst x) (snd x)) ?K = m2 ?K"
      using rateLimiter_other_key[of "fst x" ?K] Cons.prems(1) by simp
    then show ?thesis
      using False Cons.prems Cons.IH[of "snd (rateLimiter n w m1 (fst x) (snd x))" m2]
      by (simp add: limited_outcomes_for_Cons Let_def)
  qed
qed

text \<open>
  Claim C10.  The outcomes of the attempts made under one key, in a run that interleaves
  them with attempts under any other keys, are the outcomes of running that key's attempts
  alone from the same stored state.  For \<^verbatim>\<open>check_rate_limit\<close> the key is the pair of the
  identifier and the action; for \<^verbatim>\<open>rateLimiter\<close> it is the pair of \<^verbatim>\<open>req.ip\<close> and
  \<^verbatim>\<open>req.path\<close> of a request as Express delivers it.
\<close>


theorem rate_limit_isolation:
  "outcomes_for i a xs tbl = fst (check_all (filter (ra_key i a) xs) tbl)
   \<and> (wf_request k \<and> (\<forall>x \<in> set ys. wf_request (fst x)) \<longrightarrow>
        limited_outcomes_for k n w ys m = fst (limit_all n w (filter (\<lambda>x. fst x = k) ys) m))"
  using outcomes_for_projection[of i a tbl tbl xs]
    limited_outcomes_for_projection[of m k m ys n w]
  by simp


text \<open>Two clients that alternate on the login route, and two stored-procedure keys.\<close>

theorem rate_limit_isolation_witness:
  "outcomes_for ''10.0.0.1'' ''login''
     [\<lparr>ra_identifier = ''10.0.0.1'', ra_action = ''login'', ra_max_attempts = 1,
        ra_window_duration = 900, ra_now = 0\<rparr>,
      \<lparr>ra_identifier = ''10.0.0.2'', ra_action = ''login'', ra_max_attempts = 1,
        ra_window_duration = 900, ra_now = 1\<rparr>,
      \<lparr>ra_identifier = ''10.0.0.1'', ra_action = ''login'', ra_max_attempts = 1,
        ra_window_duration = 900, ra_now = 2\<rparr>] [] =
   fst (check_all (filter (ra_key ''10.0.0.1'' ''login'')
     [\<lparr>ra_identifier = ''10.0.0.1'', ra_action = ''login'', ra_max_attempts = 1,
        ra_window_duration = 900, ra_now = 0\<rparr>,
      \<lparr>ra_identifier = ''10.0.0.2'', ra_action = ''login'', ra_max_attempts = 1,
        ra_window_duration = 900, ra_now = 1\<rparr>,
      \<lparr>ra_identifier = ''10.0.0.1'', ra_action = ''login'', ra_max_attempts = 1,
        ra_window_duration = 900, ra_now = 2\<rparr>]) [])
   \<and> limited_outcomes_for \<lparr>req_ip = ''10.0.0.1'', req_path = ''/login''\<rparr> 1 900
       [(\<lparr>req_ip = ''10.0.0.1'', req_path = ''/login''\<rparr>, 0),
        (\<lparr>req_ip = ''10.0.0.2'', req_path = ''/login''\<rparr>, 1),
        (\<lparr>req_ip = ''10.0.0.1'', req_path = ''/login''\<rparr>, 2)] Map.empty =
     fst (limit_all 1 900
       (filter (\<lambda>x. fst x = \<lparr>req_ip = ''10.0.0.1'', req_path = ''/login''\<rparr>)
          [(\<lparr>req_ip = ''10.0.0.1'', req_path = ''/login''\<rparr>, 0),
           (\<lparr>req_ip = ''10.0.0.2'', req_path = ''/login''\<rparr>, 1),
           (\<lparr>req_ip = ''10.0.0.1'', req_path = ''/login''\<rparr>, 2)]) Map.empty)"
proof
  show "outcomes_for ''10.0.0.1'' ''login''
     [\<lparr>ra_identifier = ''10.0.0.1'', ra_action = ''login'', ra_max_attempts = 1,
        ra_window_duration = 900, ra_now = 0\<rparr>,
      \<lparr>ra_identifier = ''10.0.0.2'', ra_action = ''login'', ra_max_attempts = 1,
        ra_window_duration = 900, ra_now = 1\<rparr>,
      \<lparr>ra_identifier = ''10.0.0.1'', ra_action = ''login'', ra_max_attempts = 1,
        ra_window_duration = 900, ra_now = 2\<rparr>] [] =
   fst (check_all (filter (ra_key ''10.0.0.1'' ''login'')
     [\<lparr>ra_identifier = ''10.0.0.1'', ra_action = ''login'', ra_max_attempts = 1,
        ra_window_duration = 900, ra_now = 0\<rparr>,
      \<lparr>ra_identifier = ''10.0.0.2'', ra_action = ''login'', ra_max_attempts = 1,
        ra_window_duration = 900, ra_now = 1\<rparr>,
      \<lparr>ra_identifier = ''10.0.0.1'', ra_action = ''login'', ra_max_attempts = 1,
        ra_window_duration = 900, ra_now = 2\<rparr>]) [])"
    by (rule rate_limit_isolation[THEN conjunct1])
  show "limited_outcomes_for \<lparr>req_ip = ''10.0.0.1'', req_path = ''/login''\<rparr> 1 900
       [(\<lparr>req_ip = ''10.0.0.1'', req_path = ''/login''\<rparr>, 0),
        (\<lparr>req_ip = ''10.0.0.2'', req_path = ''/login''\<rparr>, 1),
        (\<lparr>req_ip = ''10.0.0.1'', req_path = ''/login''\<rparr>, 2)] Map.empty =
     fst (limit_all 1 900
       (filter (\<lambda>x. fst x = \<lparr>req_ip = ''10.0.0.1'', req_path = ''/login''\<rparr>)
          [(\<lparr>req_ip = ''10.0.0.1'', req_path = ''/login''\<rparr>, 0),
           (\<lparr>req_ip = ''10.0.0.2'', req_path = ''/login''\<rparr>, 1),
           (\<lparr>req_ip = ''10.0.0.1'', req_path = ''/login''\<rparr>, 2)]) Map.empty)"
    by (rule rate_limit_isolation[THEN conjunct2, THEN mp]) (simp add: wf_request_def)
qed

section \<open>Review of submissions\<close>

lemma create_notification_submissions [simp]:
  "submissions (snd (create_notification r t m ty ri rt nid db)) = submissions db"
  by (simp add: create_notification_def split: option.splits)

lemma handleReview_keeps_settled:
  "list_all2 keeps_settled (submissions (snd state))
     (submissions (snd (snd (handleReview user sid d now nid state))))"
proof -
  have upd: "list_all2 keeps_settled xs (update_first P f xs)"
    if "\<And>x. sub_id (f x) = sub_id x \<and> settled (sub_status (f x))" for xs P f
    using that by (intro list_all2_update_first) (auto simp: keeps_settled_def)
  have refl: "list_all2 keeps_settled xs xs" for xs
    by (simp add: list_all2_refl keeps_settled_def)
  show ?thesis
    by (cases state)
       (auto simp: handleReview_def Let_def refl settled_def decision_status_def
             split: option.splits review_decision.splits intro!: upd)
qed

lemma review_all_keeps_settled:
  "list_all2 keeps_settled (submissions (snd state)) (submissions (snd (review_all cs state)))"
proof (induction cs arbitrary: state)
  case Nil
  show ?case by (simp add: list_all2_refl keeps_settled_def)
next
  case (Cons c cs)
  let ?s1 = "snd (handleReview (rc_user c) (rc_submissionId c) (rc_decision c) (rc_now c) (rc_nid c)
               (fst state\<lparr>ui_reviewNotes := rc_reviewNotes c,
                           ui_paymentAmount := rc_paymentAmount c\<rparr>, snd state))"
  have a: "list_all2 keeps_settled (submissions (snd state)) (submissions (snd ?s1))"
    using handleReview_keeps_settled[of "(fst state\<lparr>ui_reviewNotes := rc_reviewNotes c,
                           ui_paymentAmount := rc_paymentAmount c\<rparr>, snd state)"]
    by simp
  have b: "list_all2 keeps_settled (submissions (snd ?s1)) (submissions (snd (review_all cs ?s1)))"
    by (rule Cons.IH)
  have "list_all2 keeps_settled (submissions (snd state)) (submissions (snd (review_all cs ?s1)))"
    using a b by (rule list_all2_trans[rotated]) (auto simp: keeps_settled_def)
  then show ?case by simp
qed

text \<open>
  Claim C2 (amended).  In the hosted-Postgres variant every review issued through
  \<^verbatim>\<open>handleReview\<close> writes \<^verbatim>\<open>approved\<close> or \<^verbatim>\<open>rejected\<close>: a submission that is
  approved or rejected stays approved or rejected (never pending or under review again)
  through any sequence of reviews, whoever issues them and whatever their arguments.
\<close>

theorem reviewed_stays_settled:
  assumes "i < length (submissions (snd state))"
    and "settled (sub_status (submissions (snd state) ! i))"
  shows "i < length (submissions (snd (review_all cs state)))
       \<and> sub_id (submissions (snd (review_all cs state)) ! i) = sub_id (submissions (snd state) ! i)
       \<and> settled (sub_status (submissions (snd (review_all cs state)) ! i))"
proof -
  have all: "list_all2 keeps_settled (submissions (snd state)) (submissions (snd (review_all cs state)))"
    by (rule review_all_keeps_settled)
  then have len: "length (submissions (snd (review_all cs state))) = length (submissions (snd state))"
    by (simp add: list_all2_lengthD)
  have "keeps_settled (submissions (snd state) ! i) (submissions (snd (review_all cs state)) ! i)"
    using all assms(1) by (rule list_all2_nthD)
  then show ?thesis using assms len by (simp add: keeps_settled_def)
qed

text \<open>An approved submission that is reviewed once more, this time with a rejection.\<close>

theorem reviewed_stays_settled_witness:
  "0 < length (submissions (snd (review_all [ex_reject_call] (ex_review_ui, ex_approved_db))))
   \<and> sub_id (submissions (snd (review_all [ex_reject_call] (ex_review_ui, ex_approved_db))) ! 0) =
       sub_id (submissions (snd (ex_review_ui, ex_approved_db)) ! 0)
   \<and> settled (sub_status
       (submissions (snd (review_all [ex_reject_call] (ex_review_ui, ex_approved_db))) ! 0))"
  by (rule reviewed_stays_settled)
     (simp_all add: ex_approved_db_def ex_teacher_db_def settled_def)

text \<open>
  Claim C2 as stated fails in both variants.  The REST route stores whatever status of its
  schema the request carries and does not look at the stored one: a submission that is
  \<^verbatim>\<open>accepted\<close> (the REST name of the approved state) is \<^verbatim>\<open>pending\<close> again after a
  review with that status.  \<^verbatim>\<open>handleReview\<close> does not look at the stored status either:
  an approved submission becomes rejected, so approved is not terminal.
\<close>

theorem settled_submission_reopened_counterexample:
  "map status (rest_submissions ex_accepted_rest_db) = [''accepted'']
   \<and> map status (rest_submissions (snd (review_submission (Admin_ok 2) 11
         \<lparr>rb_status = ''pending'', rb_reviewNotes = None, rb_paymentAmount = None\<rparr> 60 31
         ex_accepted_rest_db))) = [''pending'']
   \<and> map sub_status (submissions ex_approved_db) = [Approved]
   \<and> map sub_status (submissions (snd (review_all [ex_reject_call] (ex_review_ui, ex_approved_db)))) =
       [Rejected]"
  by (simp add: ex_accepted_rest_db_def ex_rest_db_def ex_rest_submission_def ex_rest_teacher_def
        review_submission_def authenticateAdmin_def status_enum_def Let_def truthy_amount_def
        ex_approved_db_def ex_teacher_db_def ex_submission_def ex_reject_call_def ex_review_ui_def
        handleReview_def create_notification_def decision_status_def)

subsection \<open>Approval with a payment amount\<close>

lemma show_int_500: "show_int 500 = ''500''"
  by (simp add: show_int_def show_nat.simps)

lemma handleReview_approve:
  assumes "find (\<lambda>s. sub_id s = sid) (submissions db) = Some s0"
    and "ui_paymentAmount ui = 500"
    and "find (\<lambda>s. sub_id s = sid) (ui_submissions ui) = Some cached"
    and "find (\<lambda>t. st_id t = sub_teacher_id cached) (teachers db) = Some teacher"
    and "st_profile_id teacher = Some pid"
  shows "fst (handleReview (Some uid) sid Approve now nid (ui, db)) = Inr ()"
    and "find (\<lambda>s. sub_id s = sid) (submissions (snd (snd (handleReview (Some uid) sid Approve now nid (ui, db))))) =
         Some (s0\<lparr>sub_payment_amount := 500, sub_payment_status := Payment_processing,
                  sub_status := Approved, sub_review_notes := ui_reviewNotes ui,
                  sub_reviewed_by := Some uid, sub_reviewed_at := Some now, sub_updated_at := now\<rparr>)"
    and "notifications (snd (snd (handleReview (Some uid) sid Approve now nid (ui, db)))) =
         notifications db @
           [\<lparr>sn_id = nid, sn_recipient_id = pid, sn_title = ''Submission Approved'',
             sn_message = ''Your submission has been approved! Payment of '' @ rupee @ ''500'' @
                          '' is being processed.'',
             sn_type = Success_type, sn_is_read = False, sn_related_id = Some sid,
             sn_related_type = Some ''submission''\<rparr>]"
  using assms
  by (simp_all add: handleReview_def Let_def create_notification_def find_update_first_same
        decision_status_def decision_word_def capitalize_def toUpperCase_char_def show_int_500)

lemma review_submission_accept:
  assumes "find (\<lambda>s. s_id s = sid) (rest_submissions db) = Some s0"
    and "find (\<lambda>t. t_id t = s_teacher s0) (rest_teachers db) = Some teacher"
  shows "fst (review_submission (Admin_ok admin) sid
                \<lparr>rb_status = ''accepted'', rb_reviewNotes = review_notes, rb_paymentAmount = Some 500\<rparr>
                now nid db) =
         Inr (s0\<lparr>status := ''accepted'',
                 reviewNotes := (case review_notes of None \<Rightarrow> [] | Some n \<Rightarrow> n),
                 reviewedBy := Some admin, reviewedAt := Some now,
                 paymentAmount := 500, paymentStatus := ''processing''\<rparr>)"
    and "find (\<lambda>s. s_id s = sid) (rest_submissions (snd (review_submission (Admin_ok admin) sid
                \<lparr>rb_status = ''accepted'', rb_reviewNotes = review_notes, rb_paymentAmount = Some 500\<rparr>
                now nid db))) =
         Some (s0\<lparr>status := ''accepted'',
                 reviewNotes := (case review_notes of None \<Rightarrow> [] | Some n \<Rightarrow> n),
                 reviewedBy := Some admin, reviewedAt := Some now,
                 paymentAmount := 500, paymentStatus := ''processing''\<rparr>)"
    and "rest_notifications (snd (review_submission (Admin_ok admin) sid
                \<lparr>rb_status = ''accepted'', rb_reviewNotes = review_notes, rb_paymentAmount = Some 500\<rparr>
                now nid db)) =
         rest_notifications db @
           [\<lparr>n_id = nid, recipient = t_id teacher, recipientModel = Teacher,
             title = ''Submission Accepted'',
             message = ''Your submission has been accepted! Payment of '' @ rupee @ ''500'' @
                       '' is being processed.'',
             n_type = Success_type, isRead = False, relatedId = Some sid,
             relatedType = Some ''submission'', createdAt = now, updatedAt = now\<rparr>]"
proof -
  have sid: "s_id s0 = sid" and tid: "t_id teacher = s_teacher s0"
    using assms by (auto dest: find_Some_iff[THEN iffD1])
  show "fst (review_submission (Admin_ok admin) sid
                \<lparr>rb_status = ''accepted'', rb_reviewNotes = review_notes, rb_paymentAmount = Some 500\<rparr>
                now nid db) =
         Inr (s0\<lparr>status := ''accepted'',
                 reviewNotes := (case review_notes of None \<Rightarrow> [] | Some n \<Rightarrow> n),
                 reviewedBy := Some admin, reviewedAt := Some now,
                 paymentAmount := 500, paymentStatus := ''processing''\<rparr>)"
    using assms
    by (simp add: review_submission_def Let_def authenticateAdmin_def status_enum_def
          truthy_amount_def)
  show "find (\<lambda>s. s_id s = sid) (rest_submissions (snd (review_submission (Admin_ok admin) sid
                \<lparr>rb_status = ''accepted'', rb_reviewNotes = review_notes, rb_paymentAmount = Some 500\<rparr>
                now nid db))) =
         Some (s0\<lparr>status := ''accepted'',
                 reviewNotes := (case review_notes of None \<Rightarrow> [] | Some n \<Rightarrow> n),
                 reviewedBy := Some admin, reviewedAt := Some now,
                 paymentAmount := 500, paymentStatus := ''processing''\<rparr>)"
    using assms sid
    by (simp add: review_submission_def Let_def authenticateAdmin_def status_enum_def
          truthy_amount_def find_update_first_const)
  show "rest_notifications (snd (review_submission (Admin_ok admin) sid
                \<lparr>rb_status = ''accepted'', rb_reviewNotes = review_notes, rb_paymentAmount = Some 500\<rparr>
                now nid db)) =
         rest_notifications db @
           [\<lparr>n_id = nid, recipient = t_id teacher, recipientModel = Teacher,
             title = ''Submission Accepted'',
             message = ''Your submission has been accepted! Payment of '' @ rupee @ ''500'' @
                       '' is being processed.'',
             n_type = Success_type, isRead = False, relatedId = Some sid,
             relatedType = Some ''submission'', createdAt = now, updatedAt = now\<rparr>]"
    using assms sid tid
    by (simp add: review_submission_def Let_def authenticateAdmin_def status_enum_def
          truthy_amount_def capitalize_def toUpperCase_char_def show_opt_int_def show_int_500)
qed

text \<open>
  Claim C6 (amended).  When an admin approves a submission with a payment amount of 500:
  in the hosted-Postgres variant (\<^verbatim>\<open>handleReview\<close> with \<^verbatim>\<open>approved\<close>, the submission
  being among the fetched ones and its teacher having a profile) the stored row has status
  \<^verbatim>\<open>approved\<close>, payment status \<^verbatim>\<open>processing\<close> and payment amount 500, and one
  notification is added, addressed to the teacher's profile, whose message contains the
  amount; in the REST variant the approving status is spelled \<^verbatim>\<open>accepted\<close>, and the route
  stores status \<^verbatim>\<open>accepted\<close>, payment status \<^verbatim>\<open>processing\<close> and payment amount 500 and
  adds one notification addressed to the teacher whose message contains the amount.
\<close>

theorem approval_with_payment:
  "(find (\<lambda>s. sub_id s = sid) (submissions db) = Some s0
      \<and> ui_paymentAmount ui = 500
      \<and> find (\<lambda>s. sub_id s = sid) (ui_submissions ui) = Some cached
      \<and> find (\<lambda>t. st_id t = sub_teacher_id cached) (teachers db) = Some teacher
      \<and> st_profile_id teacher = Some pid \<longrightarrow>
        fst (handleReview (Some uid) sid Approve now nid (ui, db)) = Inr ()
        \<and> map_option (\<lambda>s. (sub_status s, sub_payment_status s, sub_payment_amount s))
            (find (\<lambda>s. sub_id s = sid)
               (submissions (snd (snd (handleReview (Some uid) sid Approve now nid (ui, db)))))) =
           Some (Approved, Payment_processing, 500)
        \<and> notifications (snd (snd (handleReview (Some uid) sid Approve now nid (ui, db)))) =
           notifications db @
             [\<lparr>sn_id = nid, sn_recipient_id = pid, sn_title = ''Submission Approved'',
               sn_message = ''Your submission has been approved! Payment of '' @ rupee @ ''500'' @
                            '' is being processed.'',
               sn_type = Success_type, sn_is_read = False, sn_related_id = Some sid,
               sn_related_type = Some ''submission''\<rparr>])
     \<and> (find (\<lambda>s. s_id s = rid) (rest_submissions rdb) = Some r0
      \<and> find (\<lambda>t. t_id t = s_teacher r0) (rest_teachers rdb) = Some rteacher \<longrightarrow>
        map_option (\<lambda>s. (status s, paymentStatus s, paymentAmount s))
            (find (\<lambda>s. s_id s = rid)
               (rest_submissions (snd (review_submission (Admin_ok admin) rid
                  \<lparr>rb_status = ''accepted'', rb_reviewNotes = review_notes, rb_paymentAmount = Some 500\<rparr>
                  now nid rdb)))) =
           Some (''accepted'', ''processing'', 500)
        \<and> rest_notifications (snd (review_submission (Admin_ok admin) rid
                  \<lparr>rb_status = ''accepted'', rb_reviewNotes = review_notes, rb_paymentAmount = Some 500\<rparr>
                  now nid rdb)) =
           rest_notifications rdb @
             [\<lparr>n_id = nid, recipient = t_id rteacher, recipientModel = Teacher,
               title = ''Submission Accepted'',
               message = ''Your submission has been accepted! Payment of '' @ rupee @ ''500'' @
                         '' is being processed.'',
               n_type = Success_type, isRead = False, relatedId = Some rid,
               relatedType = Some ''submission'', createdAt = now, updatedAt = now\<rparr>])"
proof (rule conjI; rule impI)
  assume h: "find (\<lambda>s. sub_id s = sid) (submissions db) = Some s0
      \<and> ui_paymentAmount ui = 500
      \<and> find (\<lambda>s. sub_id s = sid) (ui_submissions ui) = Some cached
      \<and> find (\<lambda>t. st_id t = sub_teacher_id cached) (teachers db) = Some teacher
      \<and> st_profile_id teacher = Some pid"
  show "fst (handleReview (Some uid) sid Approve now nid (ui, db)) = Inr ()
        \<and> map_option (\<lambda>s. (sub_status s, sub_payment_status s, sub_payment_amount s))
            (find (\<lambda>s. sub_id s = sid)
               (submissions (snd (snd (handleReview (Some uid) sid Approve now nid (ui, db)))))) =
           Some (Approved, Payment_processing, 500)
        \<and> notifications (snd (snd (handleReview (Some uid) sid Approve now nid (ui, db)))) =
           notifications db @
             [\<lparr>sn_id = nid, sn_recipient_id = pid, sn_title = ''Submission Approved'',
               sn_message = ''Your submission has been approved! Payment of '' @ rupee @ ''500'' @
                            '' is being processed.'',
               sn_type = Success_type, sn_is_read = False, sn_related_id = Some sid,
               sn_related_type = Some ''submission''\<rparr>]"
    using h handleReview_approve[of sid db s0 ui cached teacher pid uid now nid]
    by simp
next
  assume h: "find (\<lambda>s. s_id s = rid) (rest_submissions rdb) = Some r0
      \<and> find (\<lambda>t. t_id t = s_teacher r0) (rest_teachers rdb) = Some rteacher"
  show "map_option (\<lambda>s. (status s, paymentStatus s, paymentAmount s))
            (find (\<lambda>s. s_id s = rid)
               (rest_submissions (snd (review_submission (Admin_ok admin) rid
                  \<lparr>rb_status = ''accepted'', rb_reviewNotes = review_notes, rb_paymentAmount = Some 500\<rparr>
                  now nid rdb)))) =
           Some (''accepted'', ''processing'', 500)
        \<and> rest_notifications (snd (review_submission (Admin_ok admin) rid
                  \<lparr>rb_status = ''accepted'', rb_reviewNotes = review_notes, rb_paymentAmount = Some 500\<rparr>
                  now nid rdb)) =
           rest_notifications rdb @
             [\<lparr>n_id = nid, recipient = t_id rteacher, recipientModel = Teacher,
               title = ''Submission Accepted'',
               message = ''Your submission has been accepted! Payment of '' @ rupee @ ''500'' @
                         '' is being processed.'',
               n_type = Success_type, isRead = False, relatedId = Some rid,
               relatedType = Some ''submission'', createdAt = now, updatedAt = now\<rparr>]"
    using h review_submission_accept[of rid rdb r0 rteacher admin review_notes now nid]
    by simp
qed

text \<open>The theorem for submission 11 of teacher 1 in either variant.\<close>

theorem approval_with_payment_witness:
  "(fst (handleReview (Some 2) 11 Approve 50 21 (ex_review_ui, ex_review_db)) = Inr ()
        \<and> map_option (\<lambda>s. (sub_status s, sub_payment_status s, sub_payment_amount s))
            (find (\<lambda>s. sub_id s = 11)
               (submissions (snd (snd (handleReview (Some 2) 11 Approve 50 21 (ex_review_ui, ex_review_db)))))) =
           Some (Approved, Payment_processing, 500)
        \<and> notifications (snd (snd (handleReview (Some 2) 11 Approve 50 21 (ex_review_ui, ex_review_db)))) =
           notifications ex_review_db @
             [\<lparr>sn_id = 21, sn_recipient_id = 7, sn_title = ''Submission Approved'',
               sn_message = ''Your submission has been approved! Payment of '' @ rupee @ ''500'' @
                            '' is being processed.'',
               sn_type = Success_type, sn_is_read = False, sn_related_id = Some 11,
               sn_related_type = Some ''submission''\<rparr>])
     \<and> (map_option (\<lambda>s. (status s, paymentStatus s, paymentAmount s))
            (find (\<lambda>s. s_id s = 11)
               (rest_submissions (snd (review_submission (Admin_ok 2) 11
                  \<lparr>rb_status = ''accepted'', rb_reviewNotes = Some ''well set'', rb_paymentAmount = Some 500\<rparr>
                  50 21 ex_rest_db)))) =
           Some (''accepted'', ''processing'', 500)
        \<and> rest_notifications (snd (review_submission (Admin_ok 2) 11
                  \<lparr>rb_status = ''accepted'', rb_reviewNotes = Some ''well set'', rb_paymentAmount = Some 500\<rparr>
                  50 21 ex_rest_db)) =
           rest_notifications ex_rest_db @
             [\<lparr>n_id = 21, recipient = t_id ex_rest_teacher, recipientModel = Teacher,
               title = ''Submission Accepted'',
               message = ''Your submission has been accepted! Payment of '' @ rupee @ ''500'' @
                         '' is being processed.'',
               n_type = Success_type, isRead = False, relatedId = Some 11,
               relatedType = Some ''submission'', createdAt = 50, updatedAt = 50\<rparr>])"
proof
  show "fst (handleReview (Some 2) 11 Approve 50 21 (ex_review_ui, ex_review_db)) = Inr ()
        \<and> map_option (\<lambda>s. (sub_status s, sub_payment_status s, sub_payment_amount s))
            (find (\<lambda>s. sub_id s = 11)
               (submissions (snd (snd (handleReview (Some 2) 11 Approve 50 21 (ex_review_ui, ex_review_db)))))) =
           Some (Approved, Payment_processing, 500)
        \<and> notifications (snd (snd (handleReview (Some 2) 11 Approve 50 21 (ex_review_ui, ex_review_db)))) =
           notifications ex_review_db @
             [\<lparr>sn_id = 21, sn_recipient_id = 7, sn_title = ''Submission Approved'',
               sn_message = ''Your submission has been approved! Payment of '' @ rupee @ ''500'' @
                            '' is being processed.'',
               sn_type = Success_type, sn_is_read = False, sn_related_id = Some 11,
               sn_related_type = Some ''submission''\<rparr>]"
    by (rule approval_with_payment[where ?s0.0=ex_submission and cached=ex_submission
          and teacher="hd (teachers ex_teacher_db)", THEN conjunct1, THEN mp])
       (simp add: ex_review_db_def ex_review_ui_def ex_teacher_db_def ex_submission_def)
  show "map_option (\<lambda>s. (status s, paymentStatus s, paymentAmount s))
            (find (\<lambda>s. s_id s = 11)
               (rest_submissions (snd (review_submission (Admin_ok 2) 11
                  \<lparr>rb_status = ''accepted'', rb_reviewNotes = Some ''well set'', rb_paymentAmount = Some 500\<rparr>
                  50 21 ex_rest_db)))) =
           Some (''accepted'', ''processing'', 500)
        \<and> rest_notifications (snd (review_submission (Admin_ok 2) 11
                  \<lparr>rb_status = ''accepted'', rb_reviewNotes = Some ''well set'', rb_paymentAmount = Some 500\<rparr>
                  50 21 ex_rest_db)) =
           rest_notifications ex_rest_db @
             [\<lparr>n_id = 21, recipient = t_id ex_rest_teacher, recipientModel = Teacher,
               title = ''Submission Accepted'',
               message = ''Your submission has been accepted! Payment of '' @ rupee @ ''500'' @
                         '' is being processed.'',
               n_type = Success_type, isRead = False, relatedId = Some 11,
               relatedType = Some ''submission'', createdAt = 50, updatedAt = 50\<rparr>]"
    by (rule approval_with_payment[where ?r0.0=ex_rest_submission, THEN conjunct2, THEN mp])
       (simp add: ex_rest_db_def ex_rest_submission_def ex_rest_teacher_def)
qed

text \<open>
  Claim C6 as stated fails on the REST route: the status \<^verbatim>\<open>approved\<close> is not in the
  \<^verbatim>\<open>enum\<close> of the submission schema, so a review that carries it answers 500 and changes
  nothing.
\<close>

theorem approved_status_refused_counterexample:
  "review_submission (Admin_ok 2) 11
     \<lparr>rb_status = ''approved'', rb_reviewNotes = None, rb_paymentAmount = Some 500\<rparr> 50 21
     ex_rest_db = (Inl (Http 500 ''Server error''), ex_rest_db)"
  by (simp add: review_submission_def authenticateAdmin_def status_enum_def Let_def
        ex_rest_db_def ex_rest_submission_def ex_rest_teacher_def truthy_amount_def)

section \<open>Recording submissions\<close>

lemma submit_already_completed:
  assumes "find (\<lambda>t. submissionToken t = token) (rest_teachers db) = Some teacher"
    and "hasSubmitted teacher" and "token \<noteq> []"
  shows "submit token body file now sid na nt db =
           (Inl (Http 400 (if tokenExpiry teacher < now then ''Submission link has expired''
                           else ''Submission already completed'')), db)"
  using assms by (simp add: submit_def validateSubmissionToken_def)

text \<open>
  Claim C3 (amended).  On the REST route, for a teacher whose \<^verbatim>\<open>hasSubmitted\<close> flag is
  true, every submission attempt against the teacher's token, for any number of retries and
  any request contents, is answered with status 400 and leaves the database unchanged (no
  submission row is created); the message is \<^verbatim>\<open>Submission already completed\<close> when the
  token has not expired at the time of the attempt and \<^verbatim>\<open>Submission link has expired\<close>
  when it has.
\<close>

theorem submitted_teacher_rejected:
  assumes "find (\<lambda>t. submissionToken t = token) (rest_teachers db) = Some teacher"
    and "hasSubmitted teacher" and "token \<noteq> []"
  shows "submit_all token xs db =
           (map (\<lambda>x. Inl (Http 400 (if tokenExpiry teacher < sa_now x
                                   then ''Submission link has expired''
                                   else ''Submission already completed''))) xs,
            db)"
  using assms
  by (induction xs) (simp_all add: submit_already_completed Let_def)

text \<open>One retry, before the expiry of the token, by a teacher who has submitted.\<close>

theorem submitted_teacher_rejected_witness:
  "submit_all ''c4d5''
     [\<lparr>sa_body = \<lparr>sb_accountNumber = Some ''001122'', sb_ifscCode = Some ''HDFC0001'',
                  sb_accountHolderName = Some ''A Rao'', sb_subject = Some ''Math'',
                  sb_class = Some ''10'', sb_board = Some ''CBSE'', sb_examType = Some ''Final''\<rparr>,
       sa_file = None, sa_now = 90, sa_sid = 12, sa_nid_admin = 31, sa_nid_teacher = 32\<rparr>]
     ex_rest_db =
   (map (\<lambda>x. Inl (Http 400 (if tokenExpiry ex_rest_teacher < sa_now x
                           then ''Submission link has expired''
                           else ''Submission already completed'')))
     [\<lparr>sa_body = \<lparr>sb_accountNumber = Some ''001122'', sb_ifscCode = Some ''HDFC0001'',
                  sb_accountHolderName = Some ''A Rao'', sb_subject = Some ''Math'',
                  sb_class = Some ''10'', sb_board = Some ''CBSE'', sb_examType = Some ''Final''\<rparr>,
       sa_file = None, sa_now = 90, sa_sid = 12, sa_nid_admin = 31, sa_nid_teacher = 32\<rparr>],
    ex_rest_db)"
  by (rule submitted_teacher_rejected)
     (simp_all add: ex_rest_db_def ex_rest_teacher_def)

text \<open>
  Claim C3 as stated fails once the token has expired: the route checks the expiry before
  the flag, so the teacher who has submitted is told that the link has expired.
\<close>

theorem submitted_teacher_expired_counterexample:
  "hasSubmitted ex_rest_teacher
   \<and> fst (submit ''c4d5''
        \<lparr>sb_accountNumber = Some ''001122'', sb_ifscCode = Some ''HDFC0001'',
          sb_accountHolderName = Some ''A Rao'', sb_subject = Some ''Math'',
          sb_class = Some ''10'', sb_board = Some ''CBSE'', sb_examType = Some ''Final''\<rparr>
        None 200 12 31 32 ex_rest_db) =
       Inl (Http 400 ''Submission link has expired'')"
  by (simp add: submit_def validateSubmissionToken_def ex_rest_db_def ex_rest_teacher_def)

subsection \<open>Notifications of a recorded submission\<close>

lemma submit_success:
  assumes "fst (submit token body file now sid na nt db) = Inr msg"
  shows "\<exists>teacher. find (\<lambda>t. submissionToken t = token) (rest_teachers db) = Some teacher
       \<and> rest_notifications (snd (submit token body file now sid na nt db)) =
           rest_notifications db @
             [\<lparr>n_id = na, recipient = addedBy teacher, recipientModel = Admin,
               title = ''New Submission Received'',
               message = t_name teacher @ '' has submitted their examination paper'',
               n_type = Info, isRead = False, relatedId = Some sid,
               relatedType = Some ''submission'', createdAt = now, updatedAt = now\<rparr>,
              \<lparr>n_id = nt, recipient = t_id teacher, recipientModel = Teacher,
               title = ''Submission Successful'',
               message = ''Your examination paper has been submitted '' @
                         ''successfully and is under review'',
               n_type = Success_type, isRead = False, relatedId = Some sid,
               relatedType = Some ''submission'', createdAt = now, updatedAt = now\<rparr>]"
  using assms
  by (auto simp: submit_def split: sum.splits option.splits if_splits)

lemma read_back_teacher_null: "read_back_teacher user teacher_id db = None"
  by (simp add: read_back_teacher_def embed_resolves_def teachers_profiles_fkeys_def)

lemma submitExaminationPaper_adds_no_notification:
  "notifications (snd (submitExaminationPaper user submissionData upload_ok publicUrl now sid
                         nid_teacher nid_admin db)) = notifications db"
  by (simp add: submitExaminationPaper_def Let_def read_back_teacher_null)

text \<open>
  Were the teacher read back, a teacher row without a profile reference would still get no
  notification: the database refuses the row, the refusal is dropped, and only the admin is
  notified.
\<close>

lemma notify_submission_drops_refusal:
  assumes "st_profile_id teacher = None" and "st_added_by teacher = Some aid"
  shows "map sn_recipient_id
           (notifications (notify_submission teacher submissionData sid nid_teacher nid_admin db)) =
         map sn_recipient_id (notifications db) @ [aid]"
  using assms by (simp add: notify_submission_def create_notification_def Let_def)

text \<open>
  Claim C5.  A teacher (profile 7, invited by admin 2) submits a paper through
  \<^verbatim>\<open>TeacherAuthService.submitExaminationPaper\<close> in the own session: the upload
  succeeds, the submission row is inserted and returned, and no notification row exists
  afterwards, neither for the teacher nor for the admin.  The REST route, given the same
  submission, answers with success and has stored one notification for the admin and one
  for the teacher.
\<close>

theorem hosted_submission_not_notified:
  "map_sum id sub_id
     (fst (submitExaminationPaper (Some 7) ex_submission_data True ''https://files/1-50.pdf''
             50 12 31 32 ex_portal_db)) = Inr 12
   \<and> map sub_id
       (submissions
          (snd (submitExaminationPaper (Some 7) ex_submission_data True
                  ''https://files/1-50.pdf'' 50 12 31 32 ex_portal_db))) = [12]
   \<and> notifications
       (snd (submitExaminationPaper (Some 7) ex_submission_data True ''https://files/1-50.pdf''
               50 12 31 32 ex_portal_db)) = []
   \<and> fst (submit ''c4d5'' ex_submit_body (Some ex_file) 90 12 31 32 ex_open_rest_db) =
       Inr ''Submission completed successfully''
   \<and> map (\<lambda>n. (recipient n, recipientModel n))
       (rest_notifications
          (snd (submit ''c4d5'' ex_submit_body (Some ex_file) 90 12 31 32 ex_open_rest_db))) =
       [(2, Admin), (1, Teacher)]"
  by (simp add: submitExaminationPaper_def Let_def read_back_teacher_null
        may_insert_submission_def may_update_teachers_def is_admin_def
        ex_submission_data_def ex_portal_db_def ex_teacher_db_def ex_profile_def
        ex_admin_profile_def
        submit_def validateSubmissionToken_def ex_open_rest_db_def ex_rest_teacher_def
        ex_submit_body_def ex_file_def valid_submission_def required_string_def)

section \<open>Notifications\<close>

lemma read_or_same_refl: "read_or_same n n"
  by (simp add: read_or_same_def)

lemma read_or_same_trans:
  "read_or_same a b \<Longrightarrow> read_or_same b c \<Longrightarrow> read_or_same a c"
  by (cases a; cases b; cases c) (auto simp: read_or_same_def)

lemma read_or_same_mark: "read_or_same n (n\<lparr>isRead := True, updatedAt := t\<rparr>)"
  by (simp add: read_or_same_def)

lemma extends_refl: "extends xs xs"
  unfolding extends_def
  by (rule exI[of _ xs], rule exI[of _ "[]"]) (simp add: list_all2_refl read_or_same_refl)

lemma extends_append: "extends xs (xs @ ys)"
  unfolding extends_def
  by (rule exI[of _ xs], rule exI[of _ ys]) (simp add: list_all2_refl read_or_same_refl)

lemma extends_update_first:
  "extends xs (update_first P (\<lambda>n. n\<lparr>isRead := True, updatedAt := t\<rparr>) xs)"
  unfolding extends_def
  by (rule exI[of _ "update_first P (\<lambda>n. n\<lparr>isRead := True, updatedAt := t\<rparr>) xs"],
      rule exI[of _ "[]"])
     (simp add: list_all2_update_first read_or_same_refl read_or_same_mark)

lemma extends_trans:
  assumes "extends xs ys" and "extends ys zs"
  shows "extends xs zs"
proof -
  from assms(1) obtain o1 n1 where ys: "ys = o1 @ n1" and a: "list_all2 read_or_same xs o1"
    by (auto simp: extends_def)
  from assms(2) obtain o2 n2 where zs: "zs = o2 @ n2" and b: "list_all2 read_or_same ys o2"
    by (auto simp: extends_def)
  from b ys obtain p q where o2: "o2 = p @ q" and c: "list_all2 read_or_same o1 p"
    by (auto simp: list_all2_append1)
  have "list_all2 read_or_same xs p"
    using a c by (rule list_all2_trans[rotated]) (rule read_or_same_trans)
  moreover have "zs = p @ (q @ n2)" using zs o2 by simp
  ultimately show ?thesis unfolding extends_def by blast
qed

lemma rest_step_extends: "extends (rest_notifications db) (rest_notifications (rest_step op db))"
proof (cases op)
  case (Add_teacher auth body token now tid nid)
  then show ?thesis
    by (auto simp: add_teacher_def Let_def extends_refl extends_append
             split: sum.splits option.splits)
next
  case (Review_submission auth i body now nid)
  then show ?thesis
    by (auto simp: review_submission_def Let_def extends_refl extends_append
             split: sum.splits option.splits)
next
  case (Process_payment auth i st now nid)
  then show ?thesis
    by (auto simp: process_payment_def Let_def extends_refl extends_append
             split: sum.splits option.splits)
next
  case (Submit token body upl now sid na nt)
  then show ?thesis
    by (auto simp: submit_def extends_refl extends_append
             split: sum.splits option.splits)
next
  case (Mark_read i now)
  then show ?thesis
    by (auto simp: mark_read_def extends_refl extends_update_first split: option.splits)
qed

lemma rest_run_extends: "extends (rest_notifications db) (rest_notifications (rest_run ops db))"
proof (induction ops arbitrary: db)
  case Nil
  show ?case by (simp add: extends_refl)
next
  case (Cons op ops)
  have "extends (rest_notifications db) (rest_notifications (rest_step op db))"
    by (rule rest_step_extends)
  moreover have "extends (rest_notifications (rest_step op db))
                   (rest_notifications (rest_run ops (rest_step op db)))"
    by (rule Cons.IH)
  ultimately show ?case
    by (simp add: extends_trans)
qed

lemma mark_read_effect:
  "find (\<lambda>n. n_id n = i) (rest_notifications (snd (mark_read i now db))) =
   map_option (\<lambda>n. n\<lparr>isRead := True, updatedAt := now\<rparr>)
     (find (\<lambda>n. n_id n = i) (rest_notifications db))"
  by (simp add: mark_read_def find_update_first_same split: option.splits)

lemma add_teacher_appends:
  "\<exists>news. rest_notifications (snd (add_teacher auth body token now tid nid db)) =
          rest_notifications db @ news"
  by (auto simp: add_teacher_def Let_def split: sum.splits option.splits)

lemma review_submission_appends:
  "\<exists>news. rest_notifications (snd (review_submission auth i body now nid db)) =
          rest_notifications db @ news"
  by (auto simp: review_submission_def Let_def split: sum.splits option.splits)

lemma process_payment_appends:
  "\<exists>news. rest_notifications (snd (process_payment auth i st now nid db)) =
          rest_notifications db @ news"
  by (auto simp: process_payment_def Let_def split: sum.splits option.splits)

lemma submit_appends:
  "\<exists>news. rest_notifications (snd (submit token body upl now sid na nt db)) =
          rest_notifications db @ news"
  by (auto simp: submit_def split: sum.splits option.splits)

lemma mark_read_updates:
  "snd (mark_read i now db) =
   db\<lparr>rest_notifications :=
        update_first (\<lambda>n. n_id n = i) (\<lambda>n. n\<lparr>isRead := True, updatedAt := now\<rparr>)
          (rest_notifications db)\<rparr>"
proof (cases "find (\<lambda>n. n_id n = i) (rest_notifications db)")
  case None
  then show ?thesis by (simp add: mark_read_def update_first_none)
next
  case (Some n)
  then show ?thesis by (simp add: mark_read_def)
qed

lemma rest_run_prefix:
  "take (length ms) (rest_notifications db) = ms \<Longrightarrow>
   length ms \<le> length (rest_notifications db) \<Longrightarrow>
   take (length ms) (rest_notifications (rest_run ops db)) = marks_only ops ms
   \<and> length ms \<le> length (rest_notifications (rest_run ops db))"
proof (induction ops arbitrary: db ms)
  case Nil
  then show ?case by simp
next
  case (Cons op ops)
  show ?case
  proof (cases op)
    case (Add_teacher auth body token now tid nid)
    obtain news where "rest_notifications (rest_step op db) = rest_notifications db @ news"
      using add_teacher_appends[of auth body token now tid nid db] Add_teacher by auto
    then have "take (length ms) (rest_notifications (rest_step op db)) = ms"
      and "length ms \<le> length (rest_notifications (rest_step op db))"
      using Cons.prems by simp_all
    from Cons.IH[OF this] show ?thesis using Add_teacher by simp
  next
    case (Review_submission auth i body now nid)
    obtain news where "rest_notifications (rest_step op db) = rest_notifications db @ news"
      using review_submission_appends[of auth i body now nid db] Review_submission by auto
    then have "take (length ms) (rest_notifications (rest_step op db)) = ms"
      and "length ms \<le> length (rest_notifications (rest_step op db))"
      using Cons.prems by simp_all
    from Cons.IH[OF this] show ?thesis using Review_submission by simp
  next
    case (Process_payment auth i st now nid)
    obtain news where "rest_notifications (rest_step op db) = rest_notifications db @ news"
      using process_payment_appends[of auth i st now nid db] Process_payment by auto
    then have "take (length ms) (rest_notifications (rest_step op db)) = ms"
      and "length ms \<le> length (rest_notifications (rest_step op db))"
      using Cons.prems by simp_all
    from Cons.IH[OF this] show ?thesis using Process_payment by simp
  next
    case (Submit token body upl now sid na nt)
    obtain news where "rest_notifications (rest_step op db) = rest_notifications db @ news"
      using submit_appends[of token body upl now sid na nt db] Submit by auto
    then have "take (length ms) (rest_notifications (rest_step op db)) = ms"
      and "length ms \<le> length (rest_notifications (rest_step op db))"
      using Cons.prems by simp_all
    from Cons.IH[OF this] show ?thesis using Submit by simp
  next
    case (Mark_read i now)
    let ?f = "\<lambda>n. n\<lparr>isRead := True, updatedAt := now\<rparr>"
    let ?ms = "update_first (\<lambda>n. n_id n = i) ?f ms"
    have eq: "rest_notifications (rest_step op db) =
              update_first (\<lambda>n. n_id n = i) ?f (rest_notifications db)"
      using Mark_read by (simp add: mark_read_updates)
    have "take (length ?ms) (rest_notifications (rest_step op db)) = ?ms"
      using Cons.prems(1) by (simp add: eq take_update_first length_update_first)
    moreover have "length ?ms \<le> length (rest_notifications (rest_step op db))"
      using Cons.prems(2) by (simp add: eq length_update_first)
    ultimately have "take (length ?ms) (rest_notifications (rest_run ops (rest_step op db))) =
                       marks_only ops ?ms
                     \<and> length ?ms \<le> length (rest_notifications (rest_run ops (rest_step op db)))"
      by (rule Cons.IH)
    then show ?thesis using Mark_read by (simp add: length_update_first)
  qed
qed

text \<open>
  Claim C9.  Of the writing routes of the REST variant, add-teacher, review, payment and
  submit leave every stored notification as it is and only append new ones.  Mark-as-read
  changes nothing but the notifications: their ids stay in place, every row with another
  id is unchanged, and the first row with the given id becomes the same row with the read
  flag true (and the modification time refreshed).  Through any sequence of these routes
  the notifications stored at the start are, in place, exactly what the mark-as-read
  requests of the sequence make of them, so each has recipient, recipient model, title,
  message, type, related id and related type as before.
\<close>

theorem notifications_only_marked_read:
  "(\<exists>news. rest_notifications (rest_step (Add_teacher auth a_body a_token t1 tid nid1) db) =
             rest_notifications db @ news)
   \<and> (\<exists>news. rest_notifications (rest_step (Review_submission auth sid r_body t2 nid2) db) =
             rest_notifications db @ news)
   \<and> (\<exists>news. rest_notifications (rest_step (Process_payment auth sid p_status t3 nid3) db) =
             rest_notifications db @ news)
   \<and> (\<exists>news. rest_notifications (rest_step (Submit s_token s_body upl t4 sid' nid4 nid5) db) =
             rest_notifications db @ news)
   \<and> rest_step (Mark_read i now) db =
       db\<lparr>rest_notifications :=
            update_first (\<lambda>n. n_id n = i) (\<lambda>n. n\<lparr>isRead := True, updatedAt := now\<rparr>)
              (rest_notifications db)\<rparr>
   \<and> map n_id (rest_notifications (rest_step (Mark_read i now) db)) =
       map n_id (rest_notifications db)
   \<and> filter (\<lambda>n. n_id n \<noteq> i) (rest_notifications (rest_step (Mark_read i now) db)) =
       filter (\<lambda>n. n_id n \<noteq> i) (rest_notifications db)
   \<and> find (\<lambda>n. n_id n = i) (rest_notifications (rest_step (Mark_read i now) db)) =
       map_option (\<lambda>n. n\<lparr>isRead := True, updatedAt := now\<rparr>)
         (find (\<lambda>n. n_id n = i) (rest_notifications db))
   \<and> take (length (rest_notifications db)) (rest_notifications (rest_run ops db)) =
       marks_only ops (rest_notifications db)
   \<and> length (rest_notifications db) \<le> length (rest_notifications (rest_run ops db))
   \<and> (\<exists>olds news. rest_notifications (rest_run ops db) = olds @ news
         \<and> list_all2 read_or_same (rest_notifications db) olds)"
proof -
  have run: "take (length (rest_notifications db)) (rest_notifications (rest_run ops db)) =
               marks_only ops (rest_notifications db)
             \<and> length (rest_notifications db) \<le> length (rest_notifications (rest_run ops db))"
    by (rule rest_run_prefix) simp_all
  have m: "rest_step (Mark_read i now) db =
       db\<lparr>rest_notifications :=
            update_first (\<lambda>n. n_id n = i) (\<lambda>n. n\<lparr>isRead := True, updatedAt := now\<rparr>)
              (rest_notifications db)\<rparr>"
    by (simp add: mark_read_updates)
  have ids: "map n_id (rest_notifications (rest_step (Mark_read i now) db)) =
       map n_id (rest_notifications db)"
    unfolding m by (simp add: map_update_first)
  have others: "filter (\<lambda>n. n_id n \<noteq> i) (rest_notifications (rest_step (Mark_read i now) db)) =
       filter (\<lambda>n. n_id n \<noteq> i) (rest_notifications db)"
    unfolding m by (simp add: filter_update_first)
  have addressed: "find (\<lambda>n. n_id n = i) (rest_notifications (rest_step (Mark_read i now) db)) =
       map_option (\<lambda>n. n\<lparr>isRead := True, updatedAt := now\<rparr>)
         (find (\<lambda>n. n_id n = i) (rest_notifications db))"
    using mark_read_effect[of i now db] by simp
  have ext: "\<exists>olds news. rest_notifications (rest_run ops db) = olds @ news
         \<and> list_all2 read_or_same (rest_notifications db) olds"
    using rest_run_extends[of db ops] by (simp add: extends_def)
  show ?thesis
    using add_teacher_appends[of auth a_body a_token t1 tid nid1 db]
      review_submission_appends[of auth sid r_body t2 nid2 db]
      process_payment_appends[of auth sid p_status t3 nid3 db]
      submit_appends[of s_token s_body upl t4 sid' nid4 nid5 db]
      run m ids others addressed ext
    by simp
qed

section \<open>The profile cache\<close>

lemma updateProfile_success:
  assumes "fst (updateProfile (Some uid) updates t1 (cache, db)) = Inr p"
  shows "\<exists>row. find (\<lambda>q. p_id q = uid) (profiles db) = Some row
       \<and> p = apply_updates updates t1 row \<and> p_id p = uid
       \<and> snd (updateProfile (Some uid) updates t1 (cache, db)) =
           (cache(uid := None),
            db\<lparr>profiles := update_first (\<lambda>q. p_id q = uid) (\<lambda>_. p) (profiles db)\<rparr>)"
  using assms
  by (auto simp: updateProfile_def Let_def split: option.splits if_splits)

lemma apply_updates_fields:
  "p_updated_at (apply_updates updates t row) = t
   \<and> (u_id updates = None \<or> u_id updates = Some (p_id (apply_updates updates t row)))
   \<and> (u_email updates = None \<or> u_email updates = Some (p_email (apply_updates updates t row)))
   \<and> (u_full_name updates = None
        \<or> u_full_name updates = Some (p_full_name (apply_updates updates t row)))
   \<and> (u_role updates = None \<or> u_role updates = Some (p_role (apply_updates updates t row)))
   \<and> (u_avatar_url updates = None
        \<or> u_avatar_url updates = p_avatar_url (apply_updates updates t row))
   \<and> (u_phone updates = None \<or> u_phone updates = p_phone (apply_updates updates t row))
   \<and> (u_is_active updates = None
        \<or> u_is_active updates = Some (p_is_active (apply_updates updates t row)))
   \<and> (u_last_login updates = None
        \<or> u_last_login updates = p_last_login (apply_updates updates t row))
   \<and> (u_created_at updates = None
        \<or> u_created_at updates = Some (p_created_at (apply_updates updates t row)))"
  by (auto simp: apply_updates_def or_else_def coalesce_def split: option.splits)

text \<open>
  Claim C8 (amended).  When \<^verbatim>\<open>updateProfile\<close> succeeds, the signed-in user's cache entry
  is gone, and \<^verbatim>\<open>getProfileFast\<close> for that user, at any later time, returns the
  updated row (not a cached copy): every supplied field other than \<^verbatim>\<open>updated_at\<close> has
  exactly the supplied value, and \<^verbatim>\<open>updated_at\<close> is the time of the update.
\<close>

theorem profile_update_then_fetch:
  assumes "fst (updateProfile (Some uid) updates t1 (cache, db)) = Inr p"
  shows "fst (getProfileFast uid t2
                (fst (snd (updateProfile (Some uid) updates t1 (cache, db))),
                 snd (snd (updateProfile (Some uid) updates t1 (cache, db))))) = Some p
   \<and> p_updated_at p = t1
   \<and> (u_id updates = None \<or> u_id updates = Some (p_id p))
   \<and> (u_email updates = None \<or> u_email updates = Some (p_email p))
   \<and> (u_full_name updates = None \<or> u_full_name updates = Some (p_full_name p))
   \<and> (u_role updates = None \<or> u_role updates = Some (p_role p))
   \<and> (u_avatar_url updates = None \<or> u_avatar_url updates = p_avatar_url p)
   \<and> (u_phone updates = None \<or> u_phone updates = p_phone p)
   \<and> (u_is_active updates = None \<or> u_is_active updates = Some (p_is_active p))
   \<and> (u_last_login updates = None \<or> u_last_login updates = p_last_login p)
   \<and> (u_created_at updates = None \<or> u_created_at updates = Some (p_created_at p))"
proof -
  from updateProfile_success[OF assms] obtain row where
      row: "find (\<lambda>q. p_id q = uid) (profiles db) = Some row"
      and p: "p = apply_updates updates t1 row" and pid: "p_id p = uid"
      and st: "snd (updateProfile (Some uid) updates t1 (cache, db)) =
           (cache(uid := None),
            db\<lparr>profiles := update_first (\<lambda>q. p_id q = uid) (\<lambda>_. p) (profiles db)\<rparr>)"
    by blast
  have "find (\<lambda>q. p_id q = uid) (update_first (\<lambda>q. p_id q = uid) (\<lambda>_. p) (profiles db)) = Some p"
    using row pid by (simp add: find_update_first_const)
  then have fetch: "fst (getProfileFast uid t2
                (fst (snd (updateProfile (Some uid) updates t1 (cache, db))),
                 snd (snd (updateProfile (Some uid) updates t1 (cache, db))))) = Some p"
    by (simp add: st getProfileFast_def Let_def)
  show ?thesis
    using fetch apply_updates_fields[of updates t1 row] unfolding p by blast
qed

text \<open>A change of name while a stale copy of the profile is still cached.\<close>

theorem profile_update_then_fetch_witness:
  "fst (getProfileFast 7 2000
          (fst (snd (updateProfile (Some 7) (no_updates\<lparr>u_full_name := Some ''Anita Rao''\<rparr>) 1000
                       (ex_cache, ex_profile_db))),
           snd (snd (updateProfile (Some 7) (no_updates\<lparr>u_full_name := Some ''Anita Rao''\<rparr>) 1000
                       (ex_cache, ex_profile_db))))) =
     Some (ex_profile\<lparr>p_full_name := ''Anita Rao'', p_updated_at := 1000\<rparr>)"
  using profile_update_then_fetch[of 7 "no_updates\<lparr>u_full_name := Some ''Anita Rao''\<rparr>" 1000
      ex_cache ex_profile_db "ex_profile\<lparr>p_full_name := ''Anita Rao'', p_updated_at := 1000\<rparr>" 2000]
  by (simp add: updateProfile_def apply_updates_def or_else_def coalesce_def no_updates_def
        ex_profile_db_def ex_teacher_db_def ex_profile_def Let_def)

text \<open>
  Claim C8 as stated fails for the field \<^verbatim>\<open>updated_at\<close>: a supplied value is
  overwritten with the time of the update before the statement is sent.
\<close>

theorem supplied_updated_at_overwritten_counterexample:
  "u_updated_at (no_updates\<lparr>u_updated_at := Some 5\<rparr>) = Some 5
   \<and> map_option p_updated_at
       (fst (getProfileFast 7 2000
          (fst (snd (updateProfile (Some 7) (no_updates\<lparr>u_updated_at := Some 5\<rparr>) 1000
                       (ex_cache, ex_profile_db))),
           snd (snd (updateProfile (Some 7) (no_updates\<lparr>u_updated_at := Some 5\<rparr>) 1000
                       (ex_cache, ex_profile_db)))))) = Some 1000"
  by (simp add: updateProfile_def getProfileFast_def apply_updates_def or_else_def coalesce_def
        no_updates_def ex_profile_db_def ex_teacher_db_def ex_profile_def ex_cache_def Let_def)

end
